theory Spec2Isabelle
  imports Main "HOL-Library.Char_ord" "HOL-Library.List_Lexorder"
begin

section \<open>Python values, exceptions, the log and the outcome of a call\<close>

text \<open>
  The provider module \<^verbatim>\<open>providers/aws/aws_provider.py\<close> talks to AWS through boto3 and
  writes to a logger. Both are made explicit: every function of the module takes a state
  (the outside world and the trace of what the module did so far) and returns its result
  with the new state. A result is a value, \<^verbatim>\<open>sys.exit()\<close>, or an exception that no
  handler of the module caught.
\<close>

datatype pyval = PyNone | PyStr string | PyInt int

definition py_str :: "string option \<Rightarrow> pyval" where
  "py_str s = (case s of None \<Rightarrow> PyNone | Some v \<Rightarrow> PyStr v)"

definition py_int :: "int option \<Rightarrow> pyval" where
  "py_int i = (case i of None \<Rightarrow> PyNone | Some v \<Rightarrow> PyInt v)"

text \<open>Truth value of an optional string in an \<^verbatim>\<open>if\<close>: \<^verbatim>\<open>None\<close> and \<^verbatim>\<open>""\<close> are false.\<close>

definition truthy :: "string option \<Rightarrow> bool" where
  "truthy s = (case s of None \<Rightarrow> False | Some v \<Rightarrow> v \<noteq> [])"

text \<open>Truth value of an optional list: \<^verbatim>\<open>None\<close> and \<^verbatim>\<open>[]\<close> are false.\<close>

definition truthy_list :: "'a list option \<Rightarrow> bool" where
  "truthy_list l = (case l of None \<Rightarrow> False | Some v \<Rightarrow> v \<noteq> [])"

text \<open>An exception: \<^verbatim>\<open>error.__class__.__name__\<close> and \<^verbatim>\<open>str(error)\<close>.\<close>

datatype exn = Exn (exn_class: string) (exn_str: string)

datatype 'a outcome = Returned 'a | Exited | Raised exn

datatype level = INFO | ERROR | CRITICAL

text \<open>Keyword arguments of a boto3 call, in the order written; a keyword that is not
  passed is not in the list.\<close>

type_synonym kwargs = "(string \<times> pyval) list"

text \<open>A \<^verbatim>\<open>datetime\<close> is represented by its ISO 8601 rendering, so \<^verbatim>\<open>isoformat()\<close>
  is the identity.\<close>

type_synonym datetime = string

definition isoformat :: "datetime \<Rightarrow> string" where
  "isoformat d = d"

subsection \<open>\<^verbatim>\<open>str.split\<close>, indexing and \<^verbatim>\<open>str\<close> of a number\<close>

fun str_split :: "char \<Rightarrow> string \<Rightarrow> string list" where
  "str_split sep [] = [[]]"
| "str_split sep (c # cs) =
     (if c = sep then [] # str_split sep cs
      else (case str_split sep cs of
              w # ws \<Rightarrow> (c # w) # ws
            | [] \<Rightarrow> [[c]]))"

definition py_index :: "'a list \<Rightarrow> nat \<Rightarrow> exn + 'a" where
  "py_index xs i =
     (if i < length xs then Inr (xs ! i)
      else Inl (Exn ''IndexError'' ''list index out of range''))"

definition digit_char :: "nat \<Rightarrow> char" where
  "digit_char d = char_of (48 + d)"

fun str_nat :: "nat \<Rightarrow> string" where
  "str_nat n = (if n < 10 then [digit_char n] else str_nat (n div 10) @ [digit_char (n mod 10)])"

declare str_nat.simps [simp del]

section \<open>The data model (\<^verbatim>\<open>providers/aws/models.py\<close>, as the module constructs it)\<close>

record aws_assume_role =
  role_arn :: "string option"
  session_duration :: "int option"
  external_id :: "string option"

record aws_credentials =
  aws_access_key_id :: string
  aws_session_token :: string
  aws_secret_access_key :: string
  expiration :: datetime

text \<open>
  botocore's \<^verbatim>\<open>RefreshableCredentials\<close> as \<^verbatim>\<open>set_session\<close> builds it. The callback
  \<^verbatim>\<open>refresh_using=self.refresh\<close> is a bound method with no arguments; it is represented
  by what it closes over, the provider's \<^verbatim>\<open>role_info\<close>.
\<close>

record refreshable_credentials =
  rc_access_key :: string
  rc_secret_key :: string
  rc_token :: string
  rc_expiry_time :: datetime
  rc_refresh_using :: aws_assume_role
  rc_method :: string

text \<open>A boto3 session: the profile, the credentials installed in its botocore session (none
  for a session made from the profile alone) and the \<^verbatim>\<open>region\<close> configuration variable.\<close>

datatype session =
  Session (profile_name: "string option")
          (botocore_credentials: "refreshable_credentials option")
          (region_variable: "string option")

record aws_organizations_info =
  account_details_email :: string
  account_details_name :: string
  account_details_arn :: string
  account_details_org :: string
  account_details_tags :: string

record aws_audit_info =
  original_session :: "session option"
  audit_session :: "session option"
  audited_account :: "string option"
  audited_partition :: "string option"
  profile :: "string option"
  profile_region :: "string option"
  credentials :: "aws_credentials option"
  assumed_role_info :: aws_assume_role
  audited_regions :: "string list option"
  organizations_metadata :: "aws_organizations_info option"

text \<open>Python is dynamically typed: \<^verbatim>\<open>assume_role\<close> is called with an
  \<^verbatim>\<open>AWS_Audit_Info\<close> by \<^verbatim>\<open>provider_set_session\<close> and with an \<^verbatim>\<open>AWS_Assume_Role\<close> by
  \<^verbatim>\<open>AWS_Provider.refresh\<close>. Reading an attribute the object does not have raises
  \<^verbatim>\<open>AttributeError\<close>.\<close>

datatype pyobj = Obj_Audit_Info aws_audit_info | Obj_Assume_Role aws_assume_role

definition quoted :: "string \<Rightarrow> string" where
  "quoted s = [CHR 0x27] @ s @ [CHR 0x27]"

definition no_attribute :: "string \<Rightarrow> string \<Rightarrow> exn" where
  "no_attribute cls attr =
     Exn ''AttributeError'' (quoted cls @ '' object has no attribute '' @ quoted attr)"

definition getattr_original_session :: "pyobj \<Rightarrow> exn + session option" where
  "getattr_original_session obj =
     (case obj of
        Obj_Audit_Info a \<Rightarrow> Inr (original_session a)
      | Obj_Assume_Role r \<Rightarrow> Inl (no_attribute ''AWS_Assume_Role'' ''original_session''))"

definition getattr_assumed_role_info :: "pyobj \<Rightarrow> exn + aws_assume_role" where
  "getattr_assumed_role_info obj =
     (case obj of
        Obj_Audit_Info a \<Rightarrow> Inr (assumed_role_info a)
      | Obj_Assume_Role r \<Rightarrow> Inl (no_attribute ''AWS_Assume_Role'' ''assumed_role_info''))"

subsection \<open>Responses of the services\<close>

record caller_identity =
  UserId :: string
  Account :: string
  Arn :: string

record sts_credentials =
  AccessKeyId :: string
  SecretAccessKey :: string
  SessionToken :: string
  Expiration :: datetime

record assume_role_response =
  Credentials :: sts_credentials

record account_description =
  Account_Email :: string
  Account_Name :: string
  Account_Arn :: string

record tag =
  Tag_Key :: string
  Tag_Value :: string

text \<open>The object \<^verbatim>\<open>arnparse\<close> returns; the module reads \<^verbatim>\<open>partition\<close> and
  \<^verbatim>\<open>account_id\<close>.\<close>

record arn =
  arn_partition :: string
  arn_service :: string
  arn_region :: string
  arn_account_id :: string
  arn_resource :: string

text \<open>The dictionary \<^verbatim>\<open>refresh\<close> returns to botocore.\<close>

record refreshed_credentials =
  access_key :: string
  secret_key :: string
  token :: string
  expiry_time :: string

subsection \<open>Findings (ASFF) and the Security Hub responses\<close>

text \<open>A finding, with the keys the module reads or writes; the other keys of an ASFF
  finding pass through untouched and are left out. A finding of the file or of a page has
  all of these keys: a \<^verbatim>\<open>KeyError\<close> on a malformed finding is outside the model. The same
  holds for the keys of a response.\<close>

record finding =
  finding_Id :: string
  ProductArn :: string
  ProductName :: string
  RecordState :: string
  AwsAccountId :: string
  Region :: string
  UpdatedAt :: string

record findings_filter =
  filter_ProductName :: string
  filter_RecordState :: string
  filter_AwsAccountId :: "string option"
  filter_Region :: string

record failed_finding =
  failed_Id :: string
  ErrorCode :: string
  ErrorMessage :: string

record batch_import_response =
  FailedCount :: int
  SuccessCount :: int
  FailedFindings :: "failed_finding list"

section \<open>The trace and the outside world\<close>

datatype api_call =
    Session_new session
  | Sts_get_caller_identity session
  | Sts_assume_role session kwargs
  | Organizations_describe_account sts_credentials string
  | Organizations_list_tags_for_resource sts_credentials string
  | Client_new session string string
  | File_open string
  | Securityhub_describe_hub string
  | Securityhub_list_enabled_products_for_import string
  | Securityhub_get_findings string findings_filter
  | Securityhub_batch_import_findings string "finding list"

datatype event =
    Log level string
  | Log_dict level refreshed_credentials
  | Call api_call

record 'w state =
  world :: 'w
  trace :: "event list"

definition logger :: "level \<Rightarrow> string \<Rightarrow> 'w state \<Rightarrow> 'w state" where
  "logger lv msg st = st\<lparr>trace := trace st @ [Log lv msg]\<rparr>"

definition logger_dict :: "level \<Rightarrow> refreshed_credentials \<Rightarrow> 'w state \<Rightarrow> 'w state" where
  "logger_dict lv d st = st\<lparr>trace := trace st @ [Log_dict lv d]\<rparr>"

text \<open>One call of the outside world: the call is recorded, the world answers and moves on.\<close>

definition perform :: "api_call \<Rightarrow> ('w \<Rightarrow> 'r \<times> 'w) \<Rightarrow> 'w state \<Rightarrow> 'r \<times> 'w state" where
  "perform c op st =
     (case op (world st) of
        (r, w') \<Rightarrow> (r, \<lparr>world = w', trace = trace st @ [Call c]\<rparr>))"

text \<open>
  The services the module calls. Each answers with a value or raises (\<open>Inl\<close>), and may
  change the world. Constructing a client (\<^verbatim>\<open>session.client("sts")\<close>,
  \<^verbatim>\<open>client("organizations", ...)\<close>, \<^verbatim>\<open>session.client("securityhub", ...)\<close>) is part of
  the first call made on it: both stand in the same \<^verbatim>\<open>try\<close> wherever the module
  constructs one of these.
\<close>

record 'w aws =
  Session_init :: "session \<Rightarrow> 'w \<Rightarrow> exn option \<times> 'w"
  region_name :: "session \<Rightarrow> 'w \<Rightarrow> string option"
  get_caller_identity :: "session \<Rightarrow> 'w \<Rightarrow> (exn + caller_identity) \<times> 'w"
  sts_assume_role :: "session \<Rightarrow> kwargs \<Rightarrow> 'w \<Rightarrow> (exn + assume_role_response) \<times> 'w"
  describe_account :: "sts_credentials \<Rightarrow> string \<Rightarrow> 'w \<Rightarrow> (exn + account_description) \<times> 'w"
  list_tags_for_resource :: "sts_credentials \<Rightarrow> string \<Rightarrow> 'w \<Rightarrow> (exn + tag list) \<times> 'w"
  client_init :: "session \<Rightarrow> string \<Rightarrow> string \<Rightarrow> 'w \<Rightarrow> exn option \<times> 'w"

text \<open>The two ARN parsers the module imports: \<^verbatim>\<open>arnparse\<close> (a library) and
  \<^verbatim>\<open>lib.arn.arn.arn_parsing\<close> (which validates and then calls it). Neither is part of the
  module; both are parameters.\<close>

record arn_lib =
  arnparse :: "string \<Rightarrow> exn + arn"
  arn_parsing :: "string \<Rightarrow> exn + arn"

definition critical_message :: "exn \<Rightarrow> string" where
  "critical_message error = exn_class error @ '' -- '' @ exn_str error"

section \<open>\<^verbatim>\<open>assume_role\<close> and \<^verbatim>\<open>validate_credentials\<close>\<close>

definition validate_credentials ::
  "'w aws \<Rightarrow> session \<Rightarrow> 'w state \<Rightarrow> caller_identity outcome \<times> 'w state" where
  "validate_credentials api validate_session st =
     (case perform (Sts_get_caller_identity validate_session)
             (get_caller_identity api validate_session) st of
        (Inl error, st1) \<Rightarrow> (Exited, logger CRITICAL (critical_message error) st1)
      | (Inr caller_identity, st1) \<Rightarrow> (Returned caller_identity, st1))"

text \<open>The keyword arguments of the two \<^verbatim>\<open>sts_client.assume_role\<close> calls.\<close>

definition assume_role_kwargs :: "aws_assume_role \<Rightarrow> kwargs" where
  "assume_role_kwargs info =
     (if truthy (external_id info) then
        [(''RoleArn'', py_str (role_arn info)),
         (''RoleSessionName'', PyStr ''ProwlerProAsessmentSession''),
         (''DurationSeconds'', py_int (session_duration info)),
         (''ExternalId'', py_str (external_id info))]
      else
        [(''RoleArn'', py_str (role_arn info)),
         (''RoleSessionName'', PyStr ''ProwlerProAsessmentSession''),
         (''DurationSeconds'', py_int (session_duration info))])"

text \<open>The body of the \<^verbatim>\<open>try\<close> of \<^verbatim>\<open>assume_role\<close>: an exception of any step is \<open>Inl\<close>.\<close>

definition assume_role_try ::
  "'w aws \<Rightarrow> pyobj \<Rightarrow> 'w state \<Rightarrow> (exn + assume_role_response) \<times> 'w state" where
  "assume_role_try api audit_info st =
     (case getattr_original_session audit_info of
        Inl e \<Rightarrow> (Inl e, st)
      | Inr None \<Rightarrow> (Inl (no_attribute ''NoneType'' ''client''), st)
      | Inr (Some sess) \<Rightarrow>
          (case getattr_assumed_role_info audit_info of
             Inl e \<Rightarrow> (Inl e, st)
           | Inr info \<Rightarrow>
               perform (Sts_assume_role sess (assume_role_kwargs info))
                 (sts_assume_role api sess (assume_role_kwargs info)) st))"

definition assume_role ::
  "'w aws \<Rightarrow> pyobj \<Rightarrow> 'w state \<Rightarrow> assume_role_response outcome \<times> 'w state" where
  "assume_role api audit_info st =
     (case assume_role_try api audit_info st of
        (Inl error, st1) \<Rightarrow> (Exited, logger CRITICAL (critical_message error) st1)
      | (Inr assumed_credentials, st1) \<Rightarrow> (Returned assumed_credentials, st1))"

section \<open>\<^verbatim>\<open>AWS_Provider\<close>\<close>

record aws_provider =
  aws_session :: session
  role_info :: aws_assume_role

text \<open>
  \<^verbatim>\<open>set_session\<close>. Of the statements in its \<^verbatim>\<open>try\<close>, constructing the boto3 session
  is the one that can raise (an unknown profile, for one). The callback installed in the
  refreshable credentials is \<^verbatim>\<open>self.refresh\<close>, and \<^verbatim>\<open>__init__\<close> sets
  \<^verbatim>\<open>self.role_info = audit_info.assumed_role_info\<close> right after \<^verbatim>\<open>set_session\<close>
  returns.
\<close>

definition set_session ::
  "'w aws \<Rightarrow> aws_audit_info \<Rightarrow> 'w state \<Rightarrow> session outcome \<times> 'w state" where
  "set_session api audit_info st =
     (case credentials audit_info of
        Some c \<Rightarrow>
          (let st1 = logger INFO ''Creating session for assumed role ...'' st;
               assumed_refreshable_credentials =
                 \<lparr>rc_access_key = aws_access_key_id c,
                  rc_secret_key = aws_secret_access_key c,
                  rc_token = aws_session_token c,
                  rc_expiry_time = expiration c,
                  rc_refresh_using = assumed_role_info audit_info,
                  rc_method = ''sts-assume-role''\<rparr>;
               new = Session (profile audit_info) (Some assumed_refreshable_credentials)
                       (profile_region audit_info)
           in case perform (Session_new new) (Session_init api new) st1 of
                (Some error, st2) \<Rightarrow> (Exited, logger CRITICAL (critical_message error) st2)
              | (None, st2) \<Rightarrow> (Returned new, st2))
      | None \<Rightarrow>
          (let st1 = logger INFO ''Creating session for not assumed identity ...'' st;
               new = Session (profile audit_info) None None
           in case perform (Session_new new) (Session_init api new) st1 of
                (Some error, st2) \<Rightarrow> (Exited, logger CRITICAL (critical_message error) st2)
              | (None, st2) \<Rightarrow> (Returned new, st2)))"

definition AWS_Provider ::
  "'w aws \<Rightarrow> aws_audit_info \<Rightarrow> 'w state \<Rightarrow> aws_provider outcome \<times> 'w state" where
  "AWS_Provider api audit_info st =
     (case set_session api audit_info (logger INFO ''Instantiating aws provider ...'' st) of
        (Returned s, st1) \<Rightarrow>
          (Returned \<lparr>aws_session = s, role_info = assumed_role_info audit_info\<rparr>, st1)
      | (Exited, st1) \<Rightarrow> (Exited, st1)
      | (Raised e, st1) \<Rightarrow> (Raised e, st1))"

definition get_session :: "aws_provider \<Rightarrow> session" where
  "get_session self = aws_session self"

definition refresh ::
  "'w aws \<Rightarrow> aws_provider \<Rightarrow> 'w state \<Rightarrow> refreshed_credentials outcome \<times> 'w state" where
  "refresh api self st =
     (case assume_role api (Obj_Assume_Role (role_info self))
             (logger INFO ''Refreshing assumed credentials...'' st) of
        (Returned response, st1) \<Rightarrow>
          (let refreshed =
                 \<lparr>access_key = AccessKeyId (Credentials response),
                  secret_key = SecretAccessKey (Credentials response),
                  token = SessionToken (Credentials response),
                  expiry_time = isoformat (Expiration (Credentials response))\<rparr>
           in (Returned refreshed,
               logger_dict INFO refreshed (logger INFO ''Refreshed Credentials:'' st1)))
      | (Exited, st1) \<Rightarrow> (Exited, st1)
      | (Raised e, st1) \<Rightarrow> (Raised e, st1))"

section \<open>\<^verbatim>\<open>get_organizations_metadata\<close>\<close>

definition tags_string :: "tag list \<Rightarrow> string" where
  "tags_string tags = foldl (\<lambda>acc t. acc @ Tag_Key t @ '':'' @ Tag_Value t @ '','') [] tags"

definition get_organizations_metadata ::
  "'w aws \<Rightarrow> string \<Rightarrow> assume_role_response \<Rightarrow> 'w state
     \<Rightarrow> aws_organizations_info outcome \<times> 'w state" where
  "get_organizations_metadata api metadata_account assumed_credentials st =
     (let creds = Credentials assumed_credentials in
      case perform (Organizations_describe_account creds metadata_account)
             (describe_account api creds metadata_account) st of
        (Inl error, st1) \<Rightarrow> (Exited, logger CRITICAL (critical_message error) st1)
      | (Inr account_metadata, st1) \<Rightarrow>
          (case perform (Organizations_list_tags_for_resource creds metadata_account)
                  (list_tags_for_resource api creds metadata_account) st1 of
             (Inl error, st2) \<Rightarrow> (Exited, logger CRITICAL (critical_message error) st2)
           | (Inr tags, st2) \<Rightarrow>
               (case py_index (str_split CHR ''/'' (Account_Arn account_metadata)) 1 of
                  Inl e \<Rightarrow> (Raised e, st2)
                | Inr org \<Rightarrow>
                    (Returned
                       \<lparr>account_details_email = Account_Email account_metadata,
                        account_details_name = Account_Name account_metadata,
                        account_details_arn = Account_Arn account_metadata,
                        account_details_org = org,
                        account_details_tags = tags_string tags\<rparr>, st2))))"

section \<open>\<^verbatim>\<open>provider_set_session\<close>\<close>

definition and_then ::
  "('s \<Rightarrow> 'a outcome \<times> 's) \<Rightarrow> ('a \<Rightarrow> 's \<Rightarrow> 'b outcome \<times> 's) \<Rightarrow> 's \<Rightarrow> 'b outcome \<times> 's" where
  "and_then m f st =
     (case m st of
        (Returned a, st1) \<Rightarrow> f a st1
      | (Exited, st1) \<Rightarrow> (Exited, st1)
      | (Raised e, st1) \<Rightarrow> (Raised e, st1))"

text \<open>Lines 104 to 133: the audit info as first filled, the original session, the caller's
  identity. \<^verbatim>\<open>arnparse\<close> stands outside every \<^verbatim>\<open>try\<close>.\<close>

definition original_step ::
  "arn_lib \<Rightarrow> 'w aws \<Rightarrow> string option \<Rightarrow> string list option \<Rightarrow> 'w state
     \<Rightarrow> aws_audit_info outcome \<times> 'w state" where
  "original_step lib api input_profile input_regions st =
     (let current_audit_info =
            \<lparr>original_session = None, audit_session = None, audited_account = None,
             audited_partition = None, profile = input_profile, profile_region = None,
             credentials = None,
             assumed_role_info =
               \<lparr>role_arn = None, session_duration = None, external_id = None\<rparr>,
             audited_regions = input_regions, organizations_metadata = None\<rparr>
      in and_then (AWS_Provider api current_audit_info)
           (\<lambda>provider. and_then
              (\<lambda>s. validate_credentials api (get_session provider)
                      (logger INFO ''Validating credentials ...'' s))
              (\<lambda>caller_identity s.
                 (let s1 = logger INFO ''Credentials validated'' s;
                      s2 = logger INFO
                             (''Original caller identity UserId : '' @ UserId caller_identity) s1;
                      s3 = logger INFO
                             (''Original caller identity ARN : '' @ Arn caller_identity) s2
                  in case arnparse lib (Arn caller_identity) of
                       Inl e \<Rightarrow> (Raised e, s3)
                     | Inr parsed \<Rightarrow>
                         (Returned
                            (current_audit_info
                               \<lparr>original_session := Some (get_session provider),
                                audited_account := Some (Account caller_identity),
                                audited_partition := Some (arn_partition parsed)\<rparr>), s3))))
           (logger INFO ''Generating original session ...'' st))"

text \<open>Lines 135 to 157, \<^verbatim>\<open>if organizations_role_arn:\<close>.\<close>

definition organizations_step ::
  "arn_lib \<Rightarrow> 'w aws \<Rightarrow> int option \<Rightarrow> string option \<Rightarrow> aws_audit_info \<Rightarrow> 'w state
     \<Rightarrow> aws_audit_info outcome \<times> 'w state" where
  "organizations_step lib api input_session_duration organizations_role_arn info st =
     (let st1 = logger INFO ''Checking if organizations role assumption is needed ...'' st in
      case organizations_role_arn of
        None \<Rightarrow> (Returned info, st1)
      | Some org_arn \<Rightarrow>
          if org_arn = [] then (Returned info, st1)
          else
            (let info1 = info\<lparr>assumed_role_info :=
                           (assumed_role_info info)
                             \<lparr>role_arn := Some org_arn,
                              session_duration := input_session_duration\<rparr>\<rparr>
             in case arn_parsing lib org_arn of
                  Inl error \<Rightarrow> (Exited, logger CRITICAL (critical_message error) st1)
                | Inr role_arn_parsed \<Rightarrow>
                    and_then (assume_role api (Obj_Audit_Info info1))
                      (\<lambda>assumed_credentials. and_then
                         (get_organizations_metadata api
                            (case audited_account info1 of Some a \<Rightarrow> a | None \<Rightarrow> [])
                            assumed_credentials)
                         (\<lambda>metadata s.
                            (Returned (info1\<lparr>organizations_metadata := Some metadata\<rparr>),
                             logger INFO ''Organizations metadata retrieved'' s)))
                      (logger INFO (''Getting organizations metadata for account '' @ org_arn)
                         st1)))"

text \<open>Lines 159 to 190, \<^verbatim>\<open>if input_role:\<close>. The result carries the assumed session; it
  comes with the parsed role ARN, the \<^verbatim>\<open>role_arn_parsed\<close> that line 195 reads when an
  assumed session exists.\<close>

definition role_step ::
  "arn_lib \<Rightarrow> 'w aws \<Rightarrow> string option \<Rightarrow> int option \<Rightarrow> string option \<Rightarrow> aws_audit_info
     \<Rightarrow> 'w state \<Rightarrow> (aws_audit_info \<times> (session \<times> arn) option) outcome \<times> 'w state" where
  "role_step lib api input_role input_session_duration input_external_id info st =
     (let st1 = logger INFO ''Checking if role assumption is needed ...'' st in
      case input_role of
        None \<Rightarrow> (Returned (info, None), st1)
      | Some role \<Rightarrow>
          if role = [] then (Returned (info, None), st1)
          else
            (let info1 = info\<lparr>assumed_role_info :=
                           (assumed_role_info info)
                             \<lparr>role_arn := Some role,
                              session_duration := input_session_duration,
                              external_id := input_external_id\<rparr>\<rparr>
             in case arn_parsing lib role of
                  Inl error \<Rightarrow> (Exited, logger CRITICAL (critical_message error) st1)
                | Inr role_arn_parsed \<Rightarrow>
                    and_then (assume_role api (Obj_Audit_Info info1))
                      (\<lambda>assumed_role_response s.
                         (let info2 = info1\<lparr>credentials := Some
                                \<lparr>aws_access_key_id =
                                   AccessKeyId (Credentials assumed_role_response),
                                 aws_session_token =
                                   SessionToken (Credentials assumed_role_response),
                                 aws_secret_access_key =
                                   SecretAccessKey (Credentials assumed_role_response),
                                 expiration =
                                   Expiration (Credentials assumed_role_response)\<rparr>\<rparr>
                          in and_then (AWS_Provider api info2)
                               (\<lambda>provider s1.
                                  (Returned
                                     (info2, Some (get_session provider, role_arn_parsed)), s1))
                               (logger INFO ''Role assumed'' s)))
                      (logger INFO (''Assuming role '' @ role) st1)))"

text \<open>Lines 192 to 207: the audit session and the default region.\<close>

definition default_region :: "'w aws \<Rightarrow> aws_audit_info \<Rightarrow> 'w state \<Rightarrow> aws_audit_info outcome \<times> 'w state" where
  "default_region api info st =
     (case audit_session info of
        None \<Rightarrow> (Raised (no_attribute ''NoneType'' ''region_name''), st)
      | Some s \<Rightarrow>
          (if truthy (region_name api s (world st))
           then (Returned (info\<lparr>profile_region := region_name api s (world st)\<rparr>), st)
           else (Returned (info\<lparr>profile_region := Some ''us-east-1''\<rparr>), st)))"

definition audit_session_step ::
  "'w aws \<Rightarrow> aws_audit_info \<Rightarrow> (session \<times> arn) option \<Rightarrow> 'w state
     \<Rightarrow> aws_audit_info outcome \<times> 'w state" where
  "audit_session_step api info assumed st =
     (case assumed of
        Some (assumed_session, role_arn_parsed) \<Rightarrow>
          default_region api
            (info\<lparr>audit_session := Some assumed_session,
                  audited_account := Some (arn_account_id role_arn_parsed),
                  audited_partition := Some (arn_partition role_arn_parsed)\<rparr>)
            (logger INFO ''Audit session is the new session created assuming role'' st)
      | None \<Rightarrow>
          default_region api (info\<lparr>audit_session := original_session info\<rparr>)
            (logger INFO ''Audit session is the original one'' st))"

definition provider_set_session ::
  "arn_lib \<Rightarrow> 'w aws \<Rightarrow> string option \<Rightarrow> string option \<Rightarrow> int option \<Rightarrow> string option
     \<Rightarrow> string list option \<Rightarrow> string option \<Rightarrow> 'w state
     \<Rightarrow> aws_audit_info outcome \<times> 'w state" where
  "provider_set_session lib api input_profile input_role input_session_duration
       input_external_id input_regions organizations_role_arn =
     and_then (original_step lib api input_profile input_regions)
       (\<lambda>info. and_then
          (organizations_step lib api input_session_duration organizations_role_arn info)
          (\<lambda>info1. and_then
             (role_step lib api input_role input_session_duration input_external_id info1)
             (\<lambda>(info2, assumed). audit_session_step api info2 assumed)))"

section \<open>\<^verbatim>\<open>generate_regional_clients\<close>\<close>

text \<open>The parsed services file: \<^verbatim>\<open>data["services"][service]["regions"][partition]\<close>.
  A missing key raises \<^verbatim>\<open>KeyError\<close>.\<close>

type_synonym catalog = "string \<rightharpoonup> (string \<rightharpoonup> string list)"

definition key_error :: "string \<Rightarrow> exn" where
  "key_error k = Exn ''KeyError'' (quoted k)"

definition json_regions_of :: "catalog \<Rightarrow> string \<Rightarrow> string option \<Rightarrow> exn + string list" where
  "json_regions_of data service part =
     (case data service of
        None \<Rightarrow> Inl (key_error service)
      | Some regions_of \<Rightarrow>
          (case part of
             None \<Rightarrow> Inl (Exn ''KeyError'' ''None'')
           | Some p \<Rightarrow>
               (case regions_of p of
                  None \<Rightarrow> Inl (key_error p)
                | Some rs \<Rightarrow> Inr rs)))"

record regional_client =
  client_service :: string
  client_session :: session
  client_region :: string

text \<open>\<^verbatim>\<open>list(set(json_regions).intersection(audited_regions))\<close>: the regions of both, each
  once. Python leaves the order of a set open; the model lists them as the file does.\<close>

definition common_regions :: "string list \<Rightarrow> string list \<Rightarrow> string list" where
  "common_regions json_regions requested =
     remdups (filter (\<lambda>r. r \<in> set requested) json_regions)"

fun regional_clients_loop ::
  "'w aws \<Rightarrow> string \<Rightarrow> aws_audit_info \<Rightarrow> string list \<Rightarrow> regional_client list \<Rightarrow> 'w state
     \<Rightarrow> regional_client list outcome \<times> 'w state" where
  "regional_clients_loop api service audit_info [] regional_clients st =
     (Returned regional_clients, st)"
| "regional_clients_loop api service audit_info (region # regions) regional_clients st =
     (case audit_session audit_info of
        None \<Rightarrow> (Raised (no_attribute ''NoneType'' ''client''), st)
      | Some sess \<Rightarrow>
          (case perform (Client_new sess service region) (client_init api sess service region) st of
             (Some e, st1) \<Rightarrow> (Raised e, st1)
           | (None, st1) \<Rightarrow>
               regional_clients_loop api service audit_info regions
                 (regional_clients @
                    [\<lparr>client_service = service, client_session = sess, client_region = region\<rparr>])
                 st1))"

definition generate_regional_clients ::
  "catalog \<Rightarrow> 'w aws \<Rightarrow> string \<Rightarrow> aws_audit_info \<Rightarrow> 'w state
     \<Rightarrow> regional_client list outcome \<times> 'w state" where
  "generate_regional_clients data api service audit_info st =
     (case json_regions_of data service (audited_partition audit_info) of
        Inl e \<Rightarrow> (Raised e, st)
      | Inr json_regions \<Rightarrow>
          (let regions =
                 (if truthy_list (audited_regions audit_info)
                  then common_regions json_regions
                         (case audited_regions audit_info of Some rs \<Rightarrow> rs | None \<Rightarrow> [])
                  else json_regions)
           in regional_clients_loop api service audit_info regions [] st))"

section \<open>Security Hub: \<^verbatim>\<open>send_to_security_hub\<close> and
  \<^verbatim>\<open>resolve_security_hub_previous_findings\<close>\<close>

text \<open>What the two functions touch: the findings file of the run (\<^verbatim>\<open>json.load\<close>) and
  the Security Hub client of a session and a region. \<^verbatim>\<open>get_findings\<close> answers with all
  the pages of the paginator.\<close>

record 'w securityhub =
  json_load :: "string \<Rightarrow> 'w \<Rightarrow> (exn + finding list) \<times> 'w"
  describe_hub :: "session \<Rightarrow> string \<Rightarrow> 'w \<Rightarrow> exn option \<times> 'w"
  list_enabled_products_for_import :: "session \<Rightarrow> string \<Rightarrow> 'w \<Rightarrow> (exn + string) \<times> 'w"
  get_findings ::
    "session \<Rightarrow> string \<Rightarrow> findings_filter \<Rightarrow> 'w \<Rightarrow> (exn + finding list list) \<times> 'w"
  batch_import_findings ::
    "session \<Rightarrow> string \<Rightarrow> finding list \<Rightarrow> 'w \<Rightarrow> (exn + batch_import_response) \<times> 'w"

text \<open>The two values of \<^verbatim>\<open>config.config\<close> the function reads; \<^verbatim>\<open>timestamp_utc\<close> is
  held as \<^verbatim>\<open>strftime("%Y-%m-%dT%H:%M:%SZ")\<close> renders it.\<close>

record config =
  json_asff_file_suffix :: string
  timestamp_utc :: string

fun contains :: "string \<Rightarrow> string \<Rightarrow> bool" where
  "contains sub [] = (sub = [])"
| "contains sub (c # cs) = (take (length sub) (c # cs) = sub \<or> contains sub cs)"

text \<open>The message of lines 315 to 317.\<close>

definition integration_message :: "string \<Rightarrow> string" where
  "integration_message region =
     ''Security Hub is enabled in '' @ region
       @ '' but Prowler integration does not accept findings. More info: https://github.com/prowler-cloud/prowler/#security-hub-integration''"

text \<open>Lines 323 to 327 and 395 to 399, the same statements in both functions.\<close>

definition report_failed :: "batch_import_response \<Rightarrow> 'w state \<Rightarrow> exn option \<times> 'w state" where
  "report_failed batch_import st =
     (if FailedCount batch_import > 0 then
        (case py_index (FailedFindings batch_import) 0 of
           Inl e \<Rightarrow> (Some e, st)
         | Inr failed_import \<Rightarrow>
             (None,
              logger ERROR
                (''Failed to send archived findings to AWS Security Hub -- ''
                   @ ErrorCode failed_import @ '' -- '' @ ErrorMessage failed_import) st))
      else (None, st))"

definition send_to_security_hub_try ::
  "'w securityhub \<Rightarrow> string \<Rightarrow> finding \<Rightarrow> session \<Rightarrow> 'w state \<Rightarrow> exn option \<times> 'w state" where
  "send_to_security_hub_try hub region finding_output sess st =
     (case perform (Securityhub_describe_hub region) (describe_hub hub sess region)
             (logger INFO ''Sending findings to Security Hub.'' st) of
        (Some e, st1) \<Rightarrow> (Some e, st1)
      | (None, st1) \<Rightarrow>
          (case perform (Securityhub_list_enabled_products_for_import region)
                  (list_enabled_products_for_import hub sess region) st1 of
             (Inl e, st2) \<Rightarrow> (Some e, st2)
           | (Inr products, st2) \<Rightarrow>
               (let st3 =
                      (if \<not> contains ''prowler/prowler'' products then
                         logger ERROR (integration_message region) st2
                       else st2)
                in case perform (Securityhub_batch_import_findings region [finding_output])
                          (batch_import_findings hub sess region [finding_output]) st3 of
                     (Inl e, st4) \<Rightarrow> (Some e, st4)
                   | (Inr batch_import, st4) \<Rightarrow> report_failed batch_import st4)))"

definition region_error_message :: "exn \<Rightarrow> string \<Rightarrow> string" where
  "region_error_message error region = critical_message error @ '' in region '' @ region"

definition send_to_security_hub ::
  "'w securityhub \<Rightarrow> string \<Rightarrow> finding \<Rightarrow> session \<Rightarrow> 'w state \<Rightarrow> 'w state" where
  "send_to_security_hub hub region finding_output sess st =
     (case send_to_security_hub_try hub region finding_output sess st of
        (Some error, st1) \<Rightarrow> logger ERROR (region_error_message error region) st1
      | (None, st1) \<Rightarrow> st1)"

subsection \<open>Sorting and grouping by \<^verbatim>\<open>ProductArn\<close>, chunks of 100\<close>

text \<open>\<^verbatim>\<open>itertools.groupby\<close>: runs of consecutive elements with the same key.\<close>

fun groupby :: "('a \<Rightarrow> 'k) \<Rightarrow> 'a list \<Rightarrow> ('k \<times> 'a list) list" where
  "groupby key [] = []"
| "groupby key (x # xs) =
     (case groupby key xs of
        [] \<Rightarrow> [(key x, [x])]
      | (k, g) # rest \<Rightarrow>
          (if key x = k then (k, x # g) # rest else (key x, [x]) # (k, g) # rest))"

text \<open>\<^verbatim>\<open>range(0, n, step)\<close> and \<^verbatim>\<open>xs[i:j]\<close> for \<^verbatim>\<open>i <= j\<close>.\<close>

definition range_step :: "nat \<Rightarrow> nat \<Rightarrow> nat list" where
  "range_step n step = map (\<lambda>k. k * step) [0 ..< (n + step - 1) div step]"

definition slice :: "nat \<Rightarrow> nat \<Rightarrow> 'a list \<Rightarrow> 'a list" where
  "slice i j xs = take (j - i) (drop i xs)"

definition list_chunked :: "'a list \<Rightarrow> 'a list list" where
  "list_chunked xs = map (\<lambda>i. slice i (i + 100) xs) (range_step (length xs) 100)"

subsection \<open>\<^verbatim>\<open>resolve_security_hub_previous_findings\<close>\<close>

text \<open>An optional string inside an f-string: \<^verbatim>\<open>None\<close> is rendered as \<^verbatim>\<open>None\<close>.\<close>

definition str_opt :: "string option \<Rightarrow> string" where
  "str_opt s = (case s of None \<Rightarrow> ''None'' | Some v \<Rightarrow> v)"

definition findings_file :: "config \<Rightarrow> string \<Rightarrow> aws_audit_info \<Rightarrow> string" where
  "findings_file cfg output_directory audit_info =
     output_directory @ ''/prowler-output-'' @ str_opt (audited_account audit_info) @ ''-''
       @ json_asff_file_suffix cfg"

definition findings_filter_of :: "aws_audit_info \<Rightarrow> string \<Rightarrow> findings_filter" where
  "findings_filter_of audit_info region =
     \<lparr>filter_ProductName = ''Prowler'', filter_RecordState = ''ACTIVE'',
      filter_AwsAccountId = audited_account audit_info, filter_Region = region\<rparr>"

text \<open>Lines 379 to 382: the finding is marked archived, as of the run's timestamp.\<close>

definition archive :: "config \<Rightarrow> finding \<Rightarrow> finding" where
  "archive cfg f = f\<lparr>RecordState := ''ARCHIVED'', UpdatedAt := timestamp_utc cfg\<rparr>"

text \<open>Lines 374 to 384: over the pages and their findings, in order.\<close>

definition findings_to_archive_of :: "config \<Rightarrow> string list \<Rightarrow> finding list list \<Rightarrow> finding list" where
  "findings_to_archive_of cfg current_findings_ids pages =
     map (archive cfg)
       (filter (\<lambda>f. finding_Id f \<notin> set current_findings_ids) (concat pages))"

text \<open>Lines 391 to 399. An exception leaves the loop: its handler is the one of the region.\<close>

fun submit_chunks ::
  "'w securityhub \<Rightarrow> session \<Rightarrow> string \<Rightarrow> finding list list \<Rightarrow> 'w state
     \<Rightarrow> exn option \<times> 'w state" where
  "submit_chunks hub sess region [] st = (None, st)"
| "submit_chunks hub sess region (findings # rest) st =
     (case perform (Securityhub_batch_import_findings region findings)
             (batch_import_findings hub sess region findings) st of
        (Inl e, st1) \<Rightarrow> (Some e, st1)
      | (Inr batch_import, st1) \<Rightarrow>
          (case report_failed batch_import st1 of
             (Some e, st2) \<Rightarrow> (Some e, st2)
           | (None, st2) \<Rightarrow> submit_chunks hub sess region rest st2))"

text \<open>Lines 352 to 399, the body of the \<^verbatim>\<open>try\<close> for one group.\<close>

definition archive_region_try ::
  "'w securityhub \<Rightarrow> config \<Rightarrow> aws_audit_info \<Rightarrow> string \<Rightarrow> finding list \<Rightarrow> 'w state
     \<Rightarrow> exn option \<times> 'w state" where
  "archive_region_try hub cfg audit_info region current_findings st =
     (case audit_session audit_info of
        None \<Rightarrow> (Some (no_attribute ''NoneType'' ''client''), st)
      | Some sess \<Rightarrow>
          (case perform (Securityhub_describe_hub region) (describe_hub hub sess region) st of
             (Some e, st1) \<Rightarrow> (Some e, st1)
           | (None, st1) \<Rightarrow>
               (let current_findings_ids = map finding_Id current_findings;
                    findings_filter = findings_filter_of audit_info region
                in case perform (Securityhub_get_findings region findings_filter)
                          (get_findings hub sess region findings_filter) st1 of
                     (Inl e, st2) \<Rightarrow> (Some e, st2)
                   | (Inr pages, st2) \<Rightarrow>
                       (let findings_to_archive =
                              findings_to_archive_of cfg current_findings_ids pages
                        in submit_chunks hub sess region (list_chunked findings_to_archive)
                             (logger INFO
                                (''Archiving '' @ str_nat (length findings_to_archive)
                                   @ '' findings.'') st2)))))"

text \<open>Lines 347 to 401, the loop over the groups. Line 350 stands before the \<^verbatim>\<open>try\<close>.\<close>

fun archive_groups ::
  "'w securityhub \<Rightarrow> config \<Rightarrow> aws_audit_info \<Rightarrow> (string \<times> finding list) list \<Rightarrow> 'w state
     \<Rightarrow> unit outcome \<times> 'w state" where
  "archive_groups hub cfg audit_info [] st = (Returned (), st)"
| "archive_groups hub cfg audit_info ((product_arn, current_findings) # groups) st =
     (case py_index (str_split CHR '':'' product_arn) 3 of
        Inl e \<Rightarrow> (Raised e, st)
      | Inr region \<Rightarrow>
          (case archive_region_try hub cfg audit_info region current_findings st of
             (Some error, st1) \<Rightarrow>
               archive_groups hub cfg audit_info groups
                 (logger ERROR (region_error_message error region) st1)
           | (None, st1) \<Rightarrow> archive_groups hub cfg audit_info groups st1))"

definition resolve_security_hub_previous_findings ::
  "'w securityhub \<Rightarrow> config \<Rightarrow> string \<Rightarrow> aws_audit_info \<Rightarrow> 'w state
     \<Rightarrow> unit outcome \<times> 'w state" where
  "resolve_security_hub_previous_findings hub cfg output_directory audit_info st =
     (case perform (File_open (findings_file cfg output_directory audit_info))
             (json_load hub (findings_file cfg output_directory audit_info))
             (logger INFO ''Checking previous findings in Security Hub to archive them.'' st) of
        (Inl e, st1) \<Rightarrow> (Raised e, st1)
      | (Inr json_asff_file, st1) \<Rightarrow>
          archive_groups hub cfg audit_info
            (groupby ProductArn (sort_key ProductArn json_asff_file)) st1)"

section \<open>Reading the trace\<close>

definition new_events :: "'w state \<Rightarrow> 'w state \<Rightarrow> event list" where
  "new_events st st' = drop (length (trace st)) (trace st')"

fun call_of :: "event \<Rightarrow> api_call list" where
  "call_of (Call c) = [c]"
| "call_of _ = []"

definition calls_of :: "event list \<Rightarrow> api_call list" where
  "calls_of evs = concat (map call_of evs)"

fun batch_of :: "event \<Rightarrow> finding list list" where
  "batch_of (Call (Securityhub_batch_import_findings region fs)) = [fs]"
| "batch_of _ = []"

text \<open>The submissions to the store, in order.\<close>

definition batches :: "event list \<Rightarrow> finding list list" where
  "batches evs = concat (map batch_of evs)"

fun query_of :: "event \<Rightarrow> (string \<times> findings_filter) list" where
  "query_of (Call (Securityhub_get_findings region flt)) = [(region, flt)]"
| "query_of _ = []"

text \<open>The queries of the store, in order.\<close>

definition queries :: "event list \<Rightarrow> (string \<times> findings_filter) list" where
  "queries evs = concat (map query_of evs)"

fun hub_check_of :: "event \<Rightarrow> string list" where
  "hub_check_of (Call (Securityhub_describe_hub region)) = [region]"
| "hub_check_of _ = []"

definition hub_checks :: "event list \<Rightarrow> string list" where
  "hub_checks evs = concat (map hub_check_of evs)"

fun client_region_of :: "event \<Rightarrow> string list" where
  "client_region_of (Call (Client_new sess service region)) = [region]"
| "client_region_of _ = []"

text \<open>The regions for which a client was constructed, in order.\<close>

definition client_regions :: "event list \<Rightarrow> string list" where
  "client_regions evs = concat (map client_region_of evs)"

fun error_of :: "event \<Rightarrow> string list" where
  "error_of (Log ERROR msg) = [msg]"
| "error_of _ = []"

definition errors :: "event list \<Rightarrow> string list" where
  "errors evs = concat (map error_of evs)"

definition failed_message :: "failed_finding \<Rightarrow> string" where
  "failed_message f =
     ''Failed to send archived findings to AWS Security Hub -- '' @ ErrorCode f @ '' -- ''
       @ ErrorMessage f"

text \<open>The trace ends with a critical log entry.\<close>

definition exit_logged :: "event list \<Rightarrow> bool" where
  "exit_logged evs = (case rev evs of Log CRITICAL msg # earlier \<Rightarrow> True | _ \<Rightarrow> False)"

fun critical_of :: "event \<Rightarrow> string list" where
  "critical_of (Log CRITICAL msg) = [msg]"
| "critical_of _ = []"

text \<open>The critical log entries, in order.\<close>

definition criticals :: "event list \<Rightarrow> string list" where
  "criticals evs = concat (map critical_of evs)"

section \<open>A finding store\<close>

text \<open>
  A reference model of the external store the module talks to: the world is the list of
  stored findings. A query answers with the stored findings that meet all four conditions
  of the filter, in pages of 100; a submission replaces the stored findings of the same
  identifier (or adds the finding) and reports no failure. The hub is enabled in the
  regions listed.
\<close>

definition matches :: "findings_filter \<Rightarrow> finding \<Rightarrow> bool" where
  "matches flt f \<longleftrightarrow>
     ProductName f = filter_ProductName flt \<and> RecordState f = filter_RecordState flt \<and>
     Some (AwsAccountId f) = filter_AwsAccountId flt \<and> Region f = filter_Region flt"

definition upsert :: "finding \<Rightarrow> finding list \<Rightarrow> finding list" where
  "upsert f store =
     (if finding_Id f \<in> finding_Id ` set store
      then map (\<lambda>s. if finding_Id s = finding_Id f then f else s) store
      else store @ [f])"

definition import_all :: "finding list \<Rightarrow> finding list \<Rightarrow> finding list" where
  "import_all fs store = foldl (\<lambda>s f. upsert f s) store fs"

definition store_hub :: "string list \<Rightarrow> finding list \<Rightarrow> (finding list) securityhub" where
  "store_hub enabled file =
     \<lparr>json_load = (\<lambda>path w. (Inr file, w)),
      describe_hub =
        (\<lambda>sess region w.
           (if region \<in> set enabled then None
            else Some (Exn ''InvalidAccessException'' ''Account is not subscribed to AWS Security Hub''),
            w)),
      list_enabled_products_for_import =
        (\<lambda>sess region w. (Inr ''arn:aws:securityhub:::product-subscription/prowler/prowler'', w)),
      get_findings = (\<lambda>sess region flt w. (Inr (list_chunked (filter (matches flt) w)), w)),
      batch_import_findings =
        (\<lambda>sess region fs w.
           (Inr \<lparr>FailedCount = 0, SuccessCount = int (length fs), FailedFindings = []\<rparr>,
            import_all fs w))\<rparr>"

section \<open>Notions used in the statements\<close>

text \<open>Lines 400 and 401, the handler of the region's \<^verbatim>\<open>try\<close>, as a function of what the
  body raised.\<close>

definition after_region :: "exn option \<Rightarrow> string \<Rightarrow> 'w state \<Rightarrow> 'w state" where
  "after_region err region st =
     (case err of
        Some error \<Rightarrow> logger ERROR (region_error_message error region) st
      | None \<Rightarrow> st)"

text \<open>The stored findings a group would archive in a world: those its query returns whose
  identifier is not a current one.\<close>

definition stale :: "aws_audit_info \<Rightarrow> string \<Rightarrow> finding list \<Rightarrow> finding list \<Rightarrow> finding list" where
  "stale info region current w =
     filter (\<lambda>f. finding_Id f \<notin> finding_Id ` set current)
       (filter (matches (findings_filter_of info region)) w)"

text \<open>The groups the loop reaches: those before the first ARN without a region segment.\<close>

definition reached :: "(string \<times> finding list) list \<Rightarrow> (string \<times> finding list) list" where
  "reached groups = takeWhile (\<lambda>(product_arn, current). 3 < length (str_split CHR '':'' product_arn)) groups"

text \<open>Nothing is left to archive for the groups listed, where the hub is enabled and the
  audit session exists.\<close>

definition quiet ::
  "string list \<Rightarrow> aws_audit_info \<Rightarrow> (string \<times> finding list) list \<Rightarrow> finding list \<Rightarrow> bool" where
  "quiet enabled info groups w =
     (\<forall>(product_arn, current) \<in> set groups.
        audit_session info \<noteq> None \<and> str_split CHR '':'' product_arn ! 3 \<in> set enabled \<longrightarrow>
          stale info (str_split CHR '':'' product_arn ! 3) current w = [])"

section \<open>Examples to run the model on\<close>

text \<open>A stand-in for the two ARN parsers on ARNs of six segments.\<close>

definition example_arnparse :: "string \<Rightarrow> exn + arn" where
  "example_arnparse s =
     (case str_split CHR '':'' s of
        [a, p, svc, reg, acct, res] \<Rightarrow>
          Inr \<lparr>arn_partition = p, arn_service = svc, arn_region = reg, arn_account_id = acct,
               arn_resource = res\<rparr>
      | _ \<Rightarrow> Inl (Exn ''MalformedArnError'' s))"

definition example_lib :: arn_lib where
  "example_lib = \<lparr>arnparse = example_arnparse, arn_parsing = example_arnparse\<rparr>"

text \<open>A world in which every call succeeds, and one in which the calls listed raise.\<close>

definition example_identity :: caller_identity where
  "example_identity =
     \<lparr>UserId = ''AIDAEXAMPLE'', Account = ''111111111111'',
      Arn = ''arn:aws:iam::111111111111:user/auditor''\<rparr>"

definition example_response :: assume_role_response where
  "example_response =
     \<lparr>Credentials =
        \<lparr>AccessKeyId = ''ASIAEXAMPLE'', SecretAccessKey = ''secret'', SessionToken = ''token'',
         Expiration = ''2030-01-01T00:00:00+00:00''\<rparr>\<rparr>"

definition example_aws :: "string list \<Rightarrow> unit aws" where
  "example_aws failing =
     \<lparr>Session_init =
        (\<lambda>sess w. (if ''session'' \<in> set failing
                    then Some (Exn ''ProfileNotFound'' ''The config profile could not be found'')
                    else None, w)),
      region_name = (\<lambda>sess w. None),
      get_caller_identity =
        (\<lambda>sess w. (if ''sts:GetCallerIdentity'' \<in> set failing
                    then Inl (Exn ''ClientError'' ''InvalidClientTokenId'')
                    else Inr example_identity, w)),
      sts_assume_role =
        (\<lambda>sess kw w. (if ''sts:AssumeRole'' \<in> set failing
                       then Inl (Exn ''ClientError'' ''AccessDenied'')
                       else Inr example_response, w)),
      describe_account =
        (\<lambda>creds account w.
           (if ''organizations:DescribeAccount'' \<in> set failing
            then Inl (Exn ''ClientError'' ''AccessDeniedException'')
            else Inr \<lparr>Account_Email = ''audit@example.com'', Account_Name = ''audit'',
                      Account_Arn =
                        ''arn:aws:organizations::999999999999:account/o-example/111111111111''\<rparr>,
            w)),
      list_tags_for_resource =
        (\<lambda>creds account w.
           (if ''organizations:ListTagsForResource'' \<in> set failing
            then Inl (Exn ''ClientError'' ''AccessDeniedException'')
            else Inr [\<lparr>Tag_Key = ''env'', Tag_Value = ''prod''\<rparr>], w)),
      client_init = (\<lambda>sess service region w. (None, w))\<rparr>"

definition start :: "'w \<Rightarrow> 'w state" where
  "start w = \<lparr>world = w, trace = []\<rparr>"

definition example_finding :: "string \<Rightarrow> string \<Rightarrow> finding" where
  "example_finding ident product_arn =
     \<lparr>finding_Id = ident, ProductArn = product_arn, ProductName = ''Prowler'',
      RecordState = ''ACTIVE'', AwsAccountId = ''111111111111'',
      Region = ''us-east-1'', UpdatedAt = ''2022-10-01T00:00:00Z''\<rparr>"

definition example_config :: config where
  "example_config =
     \<lparr>json_asff_file_suffix = ''20221101.asff.json'', timestamp_utc = ''2022-11-01T00:00:00Z''\<rparr>"

definition example_audit_info :: aws_audit_info where
  "example_audit_info =
     \<lparr>original_session = Some (Session None None None),
      audit_session = Some (Session None None None),
      audited_account = Some ''111111111111'', audited_partition = Some ''aws'',
      profile = None, profile_region = Some ''us-east-1'', credentials = None,
      assumed_role_info = \<lparr>role_arn = None, session_duration = None, external_id = None\<rparr>,
      audited_regions = None, organizations_metadata = None\<rparr>"

definition with_external_id :: "string option \<Rightarrow> aws_audit_info" where
  "with_external_id e =
     example_audit_info\<lparr>assumed_role_info :=
       \<lparr>role_arn = Some ''arn:aws:iam::222222222222:role/audit'',
        session_duration = Some 3600, external_id = e\<rparr>\<rparr>"

definition example_catalog :: catalog where
  "example_catalog =
     [''ec2'' \<mapsto> [''aws'' \<mapsto> [''us-east-1'', ''eu-west-1''], ''aws-cn'' \<mapsto> [''cn-north-1'']]]"

text \<open>A hub that is not enabled in \<^verbatim>\<open>eu-west-1\<close> and reports two failed findings for
  every submission.\<close>

definition rejected :: "failed_finding list" where
  "rejected =
     [\<lparr>failed_Id = ''f2'', ErrorCode = ''InvalidInput'', ErrorMessage = ''Invalid finding''\<rparr>,
      \<lparr>failed_Id = ''f3'', ErrorCode = ''LimitExceeded'', ErrorMessage = ''Too many''\<rparr>]"

definition rejecting_hub :: "unit securityhub" where
  "rejecting_hub =
     \<lparr>json_load = (\<lambda>path w. (Inr [], w)),
      describe_hub =
        (\<lambda>sess region w.
           (if region = ''eu-west-1''
            then Some (Exn ''InvalidAccessException'' ''Account is not subscribed to AWS Security Hub'')
            else None, w)),
      list_enabled_products_for_import =
        (\<lambda>sess region w. (Inr ''arn:aws:securityhub:::product-subscription/prowler/prowler'', w)),
      get_findings = (\<lambda>sess region flt w. (Inr [], w)),
      batch_import_findings =
        (\<lambda>sess region fs w.
           (Inr \<lparr>FailedCount = 2, SuccessCount = 0, FailedFindings = rejected\<rparr>, w))\<rparr>"

definition product_arn_of :: "string \<Rightarrow> string" where
  "product_arn_of region = ''arn:aws:securityhub:'' @ region @ ''::product/prowler/prowler''"

definition archived :: "finding \<Rightarrow> finding" where
  "archived f = archive example_config f"

definition finding1 :: finding where
  "finding1 = example_finding ''f1'' (product_arn_of ''us-east-1'')"

definition finding2 :: finding where
  "finding2 = example_finding ''f2'' (product_arn_of ''us-east-1'')"



section \<open>Facts about the trace\<close>

lemma calls_of_Nil [simp]: "calls_of [] = []"
  by (simp add: calls_of_def)

lemma calls_of_Cons [simp]: "calls_of (e # es) = call_of e @ calls_of es"
  by (simp add: calls_of_def)

lemma calls_of_append [simp]: "calls_of (xs @ ys) = calls_of xs @ calls_of ys"
  by (simp add: calls_of_def)

lemma new_events_append: "trace st' = trace st @ evs \<Longrightarrow> new_events st st' = evs"
  by (simp add: new_events_def)

section \<open>The renewal callback\<close>

text \<open>
  C1. The renewal callback of the refreshable credentials is \<^verbatim>\<open>AWS_Provider.refresh\<close>.
  It is to assume the role again and return the fresh access key, secret key, token and
  expiry. It passes \<^verbatim>\<open>self.role_info\<close>, an \<^verbatim>\<open>AWS_Assume_Role\<close>, to
  \<^verbatim>\<open>assume_role\<close>, which reads \<^verbatim>\<open>original_session\<close> of its argument: for every
  provider and every world the callback logs the \<^verbatim>\<open>AttributeError\<close> as critical and
  exits, the security-token service is never called, and no credentials are returned.
\<close>

theorem refresh_exits:
  "refresh api self st =
     (Exited,
      logger CRITICAL
        (critical_message (no_attribute ''AWS_Assume_Role'' ''original_session''))
        (logger INFO ''Refreshing assumed credentials...'' st)) \<and>
   calls_of (new_events st (snd (refresh api self st))) = []"
  by (simp add: refresh_def assume_role_def assume_role_try_def getattr_original_session_def
      logger_def new_events_def)

section \<open>The external id of an assume-role call\<close>

text \<open>
  C6, as the module has it. \<^verbatim>\<open>assume_role\<close> on an audit info with an original session
  makes one call of the security-token service. Its keyword arguments have no
  \<^verbatim>\<open>ExternalId\<close> when the external id is \<^verbatim>\<open>None\<close> and when it is the empty string
  (\<^verbatim>\<open>if audit_info.assumed_role_info.external_id:\<close> is false for both); a non-empty
  external id is passed as given.
\<close>

theorem assume_role_external_id:
  "original_session a = Some sess \<Longrightarrow>
   calls_of (new_events st (snd (assume_role api (Obj_Audit_Info a) st)))
     = [Sts_assume_role sess (assume_role_kwargs (assumed_role_info a))] \<and>
   (external_id (assumed_role_info a) = None \<longrightarrow>
      ''ExternalId'' \<notin> fst ` set (assume_role_kwargs (assumed_role_info a))) \<and>
   (external_id (assumed_role_info a) = Some [] \<longrightarrow>
      ''ExternalId'' \<notin> fst ` set (assume_role_kwargs (assumed_role_info a))) \<and>
   (\<forall>e. external_id (assumed_role_info a) = Some e \<and> e \<noteq> [] \<longrightarrow>
      map_of (assume_role_kwargs (assumed_role_info a)) ''ExternalId'' = Some (PyStr e))"
  by (auto simp: assume_role_def assume_role_try_def getattr_original_session_def
      getattr_assumed_role_info_def perform_def logger_def new_events_def
      assume_role_kwargs_def truthy_def py_str_def split: prod.splits sum.splits)

theorem assume_role_external_id_witness:
  "calls_of (new_events (start ())
      (snd (assume_role (example_aws [])
              (Obj_Audit_Info (with_external_id (Some ''shared-secret''))) (start ()))))
     = [Sts_assume_role (Session None None None)
          [(''RoleArn'', PyStr ''arn:aws:iam::222222222222:role/audit''),
           (''RoleSessionName'', PyStr ''ProwlerProAsessmentSession''),
           (''DurationSeconds'', PyInt 3600),
           (''ExternalId'', PyStr ''shared-secret'')]] \<and>
   calls_of (new_events (start ())
      (snd (assume_role (example_aws []) (Obj_Audit_Info (with_external_id None)) (start ()))))
     = [Sts_assume_role (Session None None None)
          [(''RoleArn'', PyStr ''arn:aws:iam::222222222222:role/audit''),
           (''RoleSessionName'', PyStr ''ProwlerProAsessmentSession''),
           (''DurationSeconds'', PyInt 3600)]]"
  using assume_role_external_id [of "with_external_id (Some ''shared-secret'')"
           "Session None None None" "start ()" "example_aws []"]
        assume_role_external_id [of "with_external_id None"
           "Session None None None" "start ()" "example_aws []"]
  by (simp add: with_external_id_def example_audit_info_def assume_role_kwargs_def truthy_def
      py_str_def py_int_def)

text \<open>
  C6, as the claim states it, fails for an external id that is present and empty: the
  request carries no \<^verbatim>\<open>ExternalId\<close>, so the empty string is not sent as given.
\<close>

theorem external_id_counterexample:
  "external_id (assumed_role_info (with_external_id (Some []))) = Some [] \<and>
   calls_of (new_events (start ())
      (snd (assume_role (example_aws []) (Obj_Audit_Info (with_external_id (Some [])))
              (start ()))))
     = [Sts_assume_role (Session None None None)
          [(''RoleArn'', PyStr ''arn:aws:iam::222222222222:role/audit''),
           (''RoleSessionName'', PyStr ''ProwlerProAsessmentSession''),
           (''DurationSeconds'', PyInt 3600)]]"
  by (simp add: with_external_id_def example_audit_info_def assume_role_def assume_role_try_def
      getattr_original_session_def getattr_assumed_role_info_def perform_def logger_def
      new_events_def assume_role_kwargs_def truthy_def py_str_def py_int_def example_aws_def
      start_def)

section \<open>The bootstrap: fatal failures and the audit identity\<close>

lemma exit_logged_append [simp]: "es \<noteq> [] \<Longrightarrow> exit_logged (evs @ es) = exit_logged es"
  by (cases es rule: rev_cases) (auto simp: exit_logged_def)

lemma exit_logged_Cons [simp]: "es \<noteq> [] \<Longrightarrow> exit_logged (e # es) = exit_logged es"
  using exit_logged_append [of es "[e]"] by simp

lemma exit_logged_single [simp]: "exit_logged [Log CRITICAL msg]"
  by (simp add: exit_logged_def)

lemma and_then_Exited:
  "and_then m f st = (Exited, st') \<Longrightarrow>
     m st = (Exited, st') \<or> (\<exists>a st1. m st = (Returned a, st1) \<and> f a st1 = (Exited, st'))"
  by (auto simp: and_then_def split: prod.splits outcome.splits)

lemma set_session_Exited:
  "set_session api info st = (Exited, st') \<Longrightarrow> exit_logged (trace st')"
  by (auto simp: set_session_def Let_def perform_def logger_def
      split: option.splits prod.splits)

lemma AWS_Provider_Exited:
  "AWS_Provider api info st = (Exited, st') \<Longrightarrow> exit_logged (trace st')"
  by (auto simp: AWS_Provider_def split: prod.splits outcome.splits dest: set_session_Exited)

lemma validate_credentials_Exited:
  "validate_credentials api sess st = (Exited, st') \<Longrightarrow> exit_logged (trace st')"
  by (auto simp: validate_credentials_def perform_def logger_def split: prod.splits sum.splits)

lemma assume_role_Exited:
  "assume_role api obj st = (Exited, st') \<Longrightarrow> exit_logged (trace st')"
  by (auto simp: assume_role_def logger_def split: prod.splits sum.splits)

lemma get_organizations_metadata_Exited:
  "get_organizations_metadata api account resp st = (Exited, st') \<Longrightarrow> exit_logged (trace st')"
  by (auto simp: get_organizations_metadata_def Let_def perform_def logger_def
      split: prod.splits sum.splits)

lemma original_step_Exited:
  "original_step lib api input_profile input_regions st = (Exited, st')
     \<Longrightarrow> exit_logged (trace st')"
  unfolding original_step_def Let_def
  by (auto dest!: and_then_Exited dest: AWS_Provider_Exited validate_credentials_Exited
      split: sum.splits)

lemma organizations_step_Exited:
  "organizations_step lib api dur org info st = (Exited, st') \<Longrightarrow> exit_logged (trace st')"
  unfolding organizations_step_def Let_def
  by (auto simp: logger_def dest!: and_then_Exited
      dest: assume_role_Exited get_organizations_metadata_Exited
      split: option.splits sum.splits if_splits)

lemma role_step_Exited:
  "role_step lib api role dur ext info st = (Exited, st') \<Longrightarrow> exit_logged (trace st')"
  unfolding role_step_def Let_def
  by (auto simp: logger_def dest!: and_then_Exited
      dest: assume_role_Exited AWS_Provider_Exited
      split: option.splits sum.splits if_splits)

lemma audit_session_step_Exited:
  "audit_session_step api info assumed st \<noteq> (Exited, st')"
  by (auto simp: audit_session_step_def default_region_def split: option.splits prod.splits)

lemma provider_set_session_Exited:
  "provider_set_session lib api input_profile input_role input_session_duration
       input_external_id input_regions organizations_role_arn st = (Exited, st')
     \<Longrightarrow> exit_logged (trace st')"
  unfolding provider_set_session_def
  by (auto dest!: and_then_Exited dest: original_step_Exited organizations_step_Exited
      role_step_Exited simp: audit_session_step_Exited)

lemma and_then_Returned:
  "and_then m f st = (Returned b, st') \<Longrightarrow>
     \<exists>a st1. m st = (Returned a, st1) \<and> f a st1 = (Returned b, st')"
  by (auto simp: and_then_def split: prod.splits outcome.splits)

lemma criticals_Nil [simp]: "criticals [] = []"
  by (simp add: criticals_def)

lemma criticals_Cons [simp]: "criticals (e # es) = critical_of e @ criticals es"
  by (simp add: criticals_def)

lemma criticals_append [simp]: "criticals (xs @ ys) = criticals xs @ criticals ys"
  by (simp add: criticals_def)

lemma set_session_quiet:
  "set_session api info st = (Returned s, st') \<Longrightarrow> criticals (trace st') = criticals (trace st)"
  by (auto simp: set_session_def Let_def perform_def logger_def
      split: option.splits prod.splits)

lemma AWS_Provider_quiet:
  "AWS_Provider api info st = (Returned p, st') \<Longrightarrow> criticals (trace st') = criticals (trace st)"
  by (auto simp: AWS_Provider_def logger_def split: prod.splits outcome.splits
      dest!: set_session_quiet)

lemma validate_credentials_quiet:
  "validate_credentials api sess st = (Returned c, st')
     \<Longrightarrow> criticals (trace st') = criticals (trace st)"
  by (auto simp: validate_credentials_def perform_def logger_def split: prod.splits sum.splits)

lemma assume_role_quiet:
  "assume_role api obj st = (Returned r, st') \<Longrightarrow> criticals (trace st') = criticals (trace st)"
  by (auto simp: assume_role_def assume_role_try_def perform_def logger_def
      split: prod.splits sum.splits option.splits)

lemma get_organizations_metadata_quiet:
  "get_organizations_metadata api account resp st = (Returned m, st')
     \<Longrightarrow> criticals (trace st') = criticals (trace st)"
  by (auto simp: get_organizations_metadata_def Let_def perform_def logger_def
      split: prod.splits sum.splits)

lemma original_step_quiet:
  "original_step lib api input_profile input_regions st = (Returned info, st')
     \<Longrightarrow> criticals (trace st') = criticals (trace st)"
  unfolding original_step_def Let_def
  by (auto simp: logger_def dest!: and_then_Returned AWS_Provider_quiet validate_credentials_quiet
      split: sum.splits)

lemma organizations_step_quiet:
  "organizations_step lib api dur org info st = (Returned info1, st')
     \<Longrightarrow> criticals (trace st') = criticals (trace st)"
  unfolding organizations_step_def Let_def
  by (auto simp: logger_def dest!: and_then_Returned assume_role_quiet
      get_organizations_metadata_quiet
      split: option.splits sum.splits if_splits)

lemma role_step_quiet:
  "role_step lib api role dur ext info st = (Returned r, st')
     \<Longrightarrow> criticals (trace st') = criticals (trace st)"
  unfolding role_step_def Let_def
  by (auto simp: logger_def dest!: and_then_Returned assume_role_quiet AWS_Provider_quiet
      split: option.splits sum.splits if_splits)

lemma audit_session_step_quiet:
  "audit_session_step api info assumed st = (Returned info', st')
     \<Longrightarrow> criticals (trace st') = criticals (trace st)"
  by (auto simp: audit_session_step_def default_region_def logger_def
      split: option.splits if_splits)

lemma provider_set_session_quiet:
  "provider_set_session lib api input_profile input_role input_session_duration
       input_external_id input_regions organizations_role_arn st = (Returned info, st')
     \<Longrightarrow> criticals (trace st') = criticals (trace st)"
  unfolding provider_set_session_def
  by (auto dest!: and_then_Returned original_step_quiet organizations_step_quiet
      role_step_quiet audit_session_step_quiet)

lemmas bootstrap_defs =
  provider_set_session_def original_step_def organizations_step_def role_step_def
  audit_session_step_def default_region_def and_then_def AWS_Provider_def set_session_def
  get_session_def validate_credentials_def assume_role_def assume_role_try_def
  getattr_original_session_def getattr_assumed_role_info_def assume_role_kwargs_def
  get_organizations_metadata_def tags_string_def py_index_def
  perform_def logger_def Let_def truthy_def py_str_def py_int_def critical_message_def

lemmas example_defs =
  example_aws_def example_lib_def example_arnparse_def example_identity_def
  example_response_def example_audit_info_def with_external_id_def start_def

text \<open>
  C9. A failure of the base session's construction, of the identity call, of an
  assume-role call or of either organizations call ends the process: the function exits
  right after the one failed call, having logged the exception's class and message as
  critical; nothing is called again. For the whole of \<^verbatim>\<open>provider_set_session\<close>: a run
  that exits has a critical entry as its last event, and a run that returns an audit info
  has logged no critical entry.
\<close>

theorem fatal_failures:
  "(credentials info = None \<and>
    Session_init api (Session (profile info) None None) (world st) = (Some e, w') \<longrightarrow>
      set_session api info st =
        (Exited,
         \<lparr>world = w',
          trace = trace st @
            [Log INFO ''Creating session for not assumed identity ...'',
             Call (Session_new (Session (profile info) None None)),
             Log CRITICAL (critical_message e)]\<rparr>)) \<and>
   (get_caller_identity api sess (world st) = (Inl e, w') \<longrightarrow>
      validate_credentials api sess st =
        (Exited,
         \<lparr>world = w',
          trace = trace st @
            [Call (Sts_get_caller_identity sess), Log CRITICAL (critical_message e)]\<rparr>)) \<and>
   (original_session a = Some sess \<and>
    sts_assume_role api sess (assume_role_kwargs (assumed_role_info a)) (world st)
      = (Inl e, w') \<longrightarrow>
      assume_role api (Obj_Audit_Info a) st =
        (Exited,
         \<lparr>world = w',
          trace = trace st @
            [Call (Sts_assume_role sess (assume_role_kwargs (assumed_role_info a))),
             Log CRITICAL (critical_message e)]\<rparr>)) \<and>
   (describe_account api (Credentials resp) account (world st) = (Inl e, w') \<longrightarrow>
      get_organizations_metadata api account resp st =
        (Exited,
         \<lparr>world = w',
          trace = trace st @
            [Call (Organizations_describe_account (Credentials resp) account),
             Log CRITICAL (critical_message e)]\<rparr>)) \<and>
   (describe_account api (Credentials resp) account (world st) = (Inr d, wd) \<and>
    list_tags_for_resource api (Credentials resp) account wd = (Inl e, w') \<longrightarrow>
      get_organizations_metadata api account resp st =
        (Exited,
         \<lparr>world = w',
          trace = trace st @
            [Call (Organizations_describe_account (Credentials resp) account),
             Call (Organizations_list_tags_for_resource (Credentials resp) account),
             Log CRITICAL (critical_message e)]\<rparr>)) \<and>
   (fst (provider_set_session lib api input_profile input_role dur ext regions org st) = Exited
      \<longrightarrow> exit_logged
            (trace (snd (provider_set_session lib api input_profile input_role dur ext regions
                           org st)))) \<and>
   (\<forall>audit. fst (provider_set_session lib api input_profile input_role dur ext regions org st)
        = Returned audit
      \<longrightarrow> criticals
            (trace (snd (provider_set_session lib api input_profile input_role dur ext regions
                           org st)))
          = criticals (trace st))"
proof (intro conjI impI allI)
  assume "credentials info = None \<and>
    Session_init api (Session (profile info) None None) (world st) = (Some e, w')"
  then show "set_session api info st =
        (Exited,
         \<lparr>world = w',
          trace = trace st @
            [Log INFO ''Creating session for not assumed identity ...'',
             Call (Session_new (Session (profile info) None None)),
             Log CRITICAL (critical_message e)]\<rparr>)"
    by (simp add: set_session_def Let_def perform_def logger_def)
next
  assume "get_caller_identity api sess (world st) = (Inl e, w')"
  then show "validate_credentials api sess st =
        (Exited,
         \<lparr>world = w',
          trace = trace st @
            [Call (Sts_get_caller_identity sess), Log CRITICAL (critical_message e)]\<rparr>)"
    by (simp add: validate_credentials_def perform_def logger_def)
next
  assume "original_session a = Some sess \<and>
    sts_assume_role api sess (assume_role_kwargs (assumed_role_info a)) (world st)
      = (Inl e, w')"
  then show "assume_role api (Obj_Audit_Info a) st =
        (Exited,
         \<lparr>world = w',
          trace = trace st @
            [Call (Sts_assume_role sess (assume_role_kwargs (assumed_role_info a))),
             Log CRITICAL (critical_message e)]\<rparr>)"
    by (simp add: assume_role_def assume_role_try_def getattr_original_session_def
        getattr_assumed_role_info_def perform_def logger_def)
next
  assume "describe_account api (Credentials resp) account (world st) = (Inl e, w')"
  then show "get_organizations_metadata api account resp st =
        (Exited,
         \<lparr>world = w',
          trace = trace st @
            [Call (Organizations_describe_account (Credentials resp) account),
             Log CRITICAL (critical_message e)]\<rparr>)"
    by (simp add: get_organizations_metadata_def Let_def perform_def logger_def)
next
  assume "describe_account api (Credentials resp) account (world st) = (Inr d, wd) \<and>
    list_tags_for_resource api (Credentials resp) account wd = (Inl e, w')"
  then show "get_organizations_metadata api account resp st =
        (Exited,
         \<lparr>world = w',
          trace = trace st @
            [Call (Organizations_describe_account (Credentials resp) account),
             Call (Organizations_list_tags_for_resource (Credentials resp) account),
             Log CRITICAL (critical_message e)]\<rparr>)"
    by (simp add: get_organizations_metadata_def Let_def perform_def logger_def)
next
  assume "fst (provider_set_session lib api input_profile input_role dur ext regions org st)
    = Exited"
  then show "exit_logged
            (trace (snd (provider_set_session lib api input_profile input_role dur ext regions
                           org st)))"
    using provider_set_session_Exited
      [of lib api input_profile input_role dur ext regions org st]
    by (metis prod.collapse)
next
  fix audit
  assume "fst (provider_set_session lib api input_profile input_role dur ext regions org st)
        = Returned audit"
  then show "criticals
            (trace (snd (provider_set_session lib api input_profile input_role dur ext regions
                           org st)))
          = criticals (trace st)"
    using provider_set_session_quiet
      [of lib api input_profile input_role dur ext regions org st audit]
    by (metis prod.collapse)
qed

theorem fatal_failures_witness:
  "set_session (example_aws [''session'']) example_audit_info (start ()) =
     (Exited,
      \<lparr>world = (),
       trace =
         [Log INFO ''Creating session for not assumed identity ...'',
          Call (Session_new (Session None None None)),
          Log CRITICAL ''ProfileNotFound -- The config profile could not be found'']\<rparr>) \<and>
   validate_credentials (example_aws [''sts:GetCallerIdentity'']) (Session None None None)
       (start ()) =
     (Exited,
      \<lparr>world = (),
       trace =
         [Call (Sts_get_caller_identity (Session None None None)),
          Log CRITICAL ''ClientError -- InvalidClientTokenId'']\<rparr>) \<and>
   assume_role (example_aws [''sts:AssumeRole'']) (Obj_Audit_Info (with_external_id None))
       (start ()) =
     (Exited,
      \<lparr>world = (),
       trace =
         [Call (Sts_assume_role (Session None None None)
                  [(''RoleArn'', PyStr ''arn:aws:iam::222222222222:role/audit''),
                   (''RoleSessionName'', PyStr ''ProwlerProAsessmentSession''),
                   (''DurationSeconds'', PyInt 3600)]),
          Log CRITICAL ''ClientError -- AccessDenied'']\<rparr>) \<and>
   get_organizations_metadata (example_aws [''organizations:DescribeAccount''])
       ''111111111111'' example_response (start ()) =
     (Exited,
      \<lparr>world = (),
       trace =
         [Call (Organizations_describe_account (Credentials example_response) ''111111111111''),
          Log CRITICAL ''ClientError -- AccessDeniedException'']\<rparr>) \<and>
   get_organizations_metadata (example_aws [''organizations:ListTagsForResource''])
       ''111111111111'' example_response (start ()) =
     (Exited,
      \<lparr>world = (),
       trace =
         [Call (Organizations_describe_account (Credentials example_response) ''111111111111''),
          Call (Organizations_list_tags_for_resource (Credentials example_response)
                  ''111111111111''),
          Log CRITICAL ''ClientError -- AccessDeniedException'']\<rparr>) \<and>
   fst (provider_set_session example_lib (example_aws [''sts:AssumeRole'']) None
          (Some ''arn:aws:iam::222222222222:role/audit'') (Some 3600) None None None (start ()))
     = Exited \<and>
   exit_logged
     (trace (snd (provider_set_session example_lib (example_aws [''sts:AssumeRole'']) None
          (Some ''arn:aws:iam::222222222222:role/audit'') (Some 3600) None None None
          (start ())))) \<and>
   criticals
     (trace (snd (provider_set_session example_lib (example_aws []) None
          (Some ''arn:aws:iam::222222222222:role/audit'') (Some 3600) None None None
          (start ())))) = []"
proof -
  have x: "fst (provider_set_session example_lib (example_aws [''sts:AssumeRole'']) None
          (Some ''arn:aws:iam::222222222222:role/audit'') (Some 3600) None None None (start ()))
     = Exited"
    by (simp add: bootstrap_defs example_defs)
  have r: "\<exists>audit. fst (provider_set_session example_lib (example_aws []) None
          (Some ''arn:aws:iam::222222222222:role/audit'') (Some 3600) None None None (start ()))
     = Returned audit"
    by (simp add: bootstrap_defs example_defs)
  have c1: "set_session (example_aws [''session'']) example_audit_info (start ()) =
     (Exited,
      \<lparr>world = (),
       trace =
         [Log INFO ''Creating session for not assumed identity ...'',
          Call (Session_new (Session None None None)),
          Log CRITICAL ''ProfileNotFound -- The config profile could not be found'']\<rparr>)"
    using fatal_failures [where info = example_audit_info and api = "example_aws [''session'']"
        and st = "start ()" and w' = "()"
        and e = "Exn ''ProfileNotFound'' ''The config profile could not be found''"]
    by (simp add: example_defs critical_message_def)
  have c2: "validate_credentials (example_aws [''sts:GetCallerIdentity''])
       (Session None None None) (start ()) =
     (Exited,
      \<lparr>world = (),
       trace =
         [Call (Sts_get_caller_identity (Session None None None)),
          Log CRITICAL ''ClientError -- InvalidClientTokenId'']\<rparr>)"
    using fatal_failures [where api = "example_aws [''sts:GetCallerIdentity'']"
        and sess = "Session None None None"
        and st = "start ()" and w' = "()" and e = "Exn ''ClientError'' ''InvalidClientTokenId''"]
    by (simp add: example_defs critical_message_def)
  have c3: "assume_role (example_aws [''sts:AssumeRole''])
       (Obj_Audit_Info (with_external_id None)) (start ()) =
     (Exited,
      \<lparr>world = (),
       trace =
         [Call (Sts_assume_role (Session None None None)
                  [(''RoleArn'', PyStr ''arn:aws:iam::222222222222:role/audit''),
                   (''RoleSessionName'', PyStr ''ProwlerProAsessmentSession''),
                   (''DurationSeconds'', PyInt 3600)]),
          Log CRITICAL ''ClientError -- AccessDenied'']\<rparr>)"
    using fatal_failures [where api = "example_aws [''sts:AssumeRole'']"
        and a = "with_external_id None" and sess = "Session None None None"
        and st = "start ()" and w' = "()" and e = "Exn ''ClientError'' ''AccessDenied''"]
    by (simp add: example_defs critical_message_def assume_role_kwargs_def truthy_def
        py_str_def py_int_def)
  have c4: "get_organizations_metadata (example_aws [''organizations:DescribeAccount''])
       ''111111111111'' example_response (start ()) =
     (Exited,
      \<lparr>world = (),
       trace =
         [Call (Organizations_describe_account (Credentials example_response) ''111111111111''),
          Log CRITICAL ''ClientError -- AccessDeniedException'']\<rparr>)"
    using fatal_failures [where api = "example_aws [''organizations:DescribeAccount'']"
        and resp = example_response and account = "''111111111111''"
        and st = "start ()" and w' = "()"
        and e = "Exn ''ClientError'' ''AccessDeniedException''"]
    by (simp add: example_aws_def start_def critical_message_def)
  have c5: "get_organizations_metadata (example_aws [''organizations:ListTagsForResource''])
       ''111111111111'' example_response (start ()) =
     (Exited,
      \<lparr>world = (),
       trace =
         [Call (Organizations_describe_account (Credentials example_response) ''111111111111''),
          Call (Organizations_list_tags_for_resource (Credentials example_response)
                  ''111111111111''),
          Log CRITICAL ''ClientError -- AccessDeniedException'']\<rparr>)"
    using fatal_failures [where api = "example_aws [''organizations:ListTagsForResource'']"
        and resp = example_response and account = "''111111111111''"
        and st = "start ()" and w' = "()" and wd = "()"
        and d = "\<lparr>Account_Email = ''audit@example.com'', Account_Name = ''audit'',
                      Account_Arn =
                        ''arn:aws:organizations::999999999999:account/o-example/111111111111''\<rparr>"
        and e = "Exn ''ClientError'' ''AccessDeniedException''"]
    by (simp add: example_aws_def start_def critical_message_def)
  have c6: "exit_logged
     (trace (snd (provider_set_session example_lib (example_aws [''sts:AssumeRole'']) None
          (Some ''arn:aws:iam::222222222222:role/audit'') (Some 3600) None None None
          (start ()))))"
    using x fatal_failures [where lib = example_lib and api = "example_aws [''sts:AssumeRole'']"
        and input_profile = None
        and input_role = "Some ''arn:aws:iam::222222222222:role/audit''"
        and dur = "Some 3600" and ext = None and regions = None and org = None
        and st = "start ()"]
    by blast
  have c7: "criticals
     (trace (snd (provider_set_session example_lib (example_aws []) None
          (Some ''arn:aws:iam::222222222222:role/audit'') (Some 3600) None None None
          (start ())))) = []"
    using r fatal_failures [where lib = example_lib and api = "example_aws []"
        and input_profile = None
        and input_role = "Some ''arn:aws:iam::222222222222:role/audit''"
        and dur = "Some 3600" and ext = None and regions = None and org = None
        and st = "start ()"]
    by (auto simp: start_def)
  from x c1 c2 c3 c4 c5 c6 c7 show ?thesis by blast
qed

lemma set_session_Returned:
  "set_session api info st = (Returned s, st') \<Longrightarrow>
     s = (case credentials info of
            None \<Rightarrow> Session (profile info) None None
          | Some c \<Rightarrow>
              Session (profile info)
                (Some \<lparr>rc_access_key = aws_access_key_id c,
                       rc_secret_key = aws_secret_access_key c,
                       rc_token = aws_session_token c,
                       rc_expiry_time = expiration c,
                       rc_refresh_using = assumed_role_info info,
                       rc_method = ''sts-assume-role''\<rparr>)
                (profile_region info))"
  by (auto simp: set_session_def Let_def perform_def split: option.splits prod.splits)

lemma AWS_Provider_Returned:
  "AWS_Provider api info st = (Returned p, st') \<Longrightarrow>
     role_info p = assumed_role_info info \<and>
     get_session p = (case credentials info of
            None \<Rightarrow> Session (profile info) None None
          | Some c \<Rightarrow>
              Session (profile info)
                (Some \<lparr>rc_access_key = aws_access_key_id c,
                       rc_secret_key = aws_secret_access_key c,
                       rc_token = aws_session_token c,
                       rc_expiry_time = expiration c,
                       rc_refresh_using = assumed_role_info info,
                       rc_method = ''sts-assume-role''\<rparr>)
                (profile_region info))"
  by (auto simp: AWS_Provider_def get_session_def split: prod.splits outcome.splits
      dest: set_session_Returned)

lemma original_step_Returned:
  assumes "original_step lib api input_profile input_regions st = (Returned info, st')"
  shows "\<exists>identity parsed w1 w2.
     Session_init api (Session input_profile None None) (world st) = (None, w1) \<and>
     get_caller_identity api (Session input_profile None None) w1 = (Inr identity, w2) \<and>
     arnparse lib (Arn identity) = Inr parsed \<and>
     info = \<lparr>original_session = Some (Session input_profile None None), audit_session = None,
             audited_account = Some (Account identity),
             audited_partition = Some (arn_partition parsed), profile = input_profile,
             profile_region = None, credentials = None,
             assumed_role_info =
               \<lparr>role_arn = None, session_duration = None, external_id = None\<rparr>,
             audited_regions = input_regions, organizations_metadata = None\<rparr>"
  using assms
  by (auto simp: original_step_def and_then_def AWS_Provider_def set_session_def Let_def
      perform_def logger_def validate_credentials_def get_session_def
      split: prod.splits outcome.splits option.splits sum.splits)

lemma organizations_step_Returned:
  assumes "organizations_step lib api dur org info st = (Returned info1, st')"
  shows "original_session info1 = original_session info \<and>
         audit_session info1 = audit_session info \<and>
         audited_account info1 = audited_account info \<and>
         audited_partition info1 = audited_partition info \<and>
         profile info1 = profile info \<and>
         profile_region info1 = profile_region info \<and>
         credentials info1 = credentials info"
  using assms
  by (auto simp: organizations_step_def Let_def
      split: option.splits sum.splits if_splits dest!: and_then_Returned)

lemma role_step_Returned:
  assumes "role_step lib api input_role dur ext info st = (Returned (info2, assumed), st')"
  shows "original_session info2 = original_session info \<and>
         audit_session info2 = audit_session info \<and>
         audited_account info2 = audited_account info \<and>
         audited_partition info2 = audited_partition info \<and>
         profile info2 = profile info \<and>
         profile_region info2 = profile_region info \<and>
         (\<not> truthy input_role \<longrightarrow> assumed = None) \<and>
         (\<forall>role. input_role = Some role \<and> role \<noteq> [] \<longrightarrow>
            (\<exists>role_arn_parsed rc.
               arn_parsing lib role = Inr role_arn_parsed \<and>
               assumed = Some (Session (profile info) (Some rc) (profile_region info),
                               role_arn_parsed) \<and>
               rc_refresh_using rc =
                 (assumed_role_info info)\<lparr>role_arn := Some role, session_duration := dur,
                    external_id := ext\<rparr>))"
  using assms
  by (auto simp: role_step_def Let_def truthy_def
      split: option.splits sum.splits if_splits dest!: and_then_Returned AWS_Provider_Returned)

lemma audit_session_step_Returned:
  assumes "audit_session_step api info assumed st = (Returned info', st')"
  shows "original_session info' = original_session info \<and>
         (assumed = None \<longrightarrow>
            audit_session info' = original_session info \<and>
            audited_account info' = audited_account info \<and>
            audited_partition info' = audited_partition info) \<and>
         (\<forall>s parsed. assumed = Some (s, parsed) \<longrightarrow>
            audit_session info' = Some s \<and>
            audited_account info' = Some (arn_account_id parsed) \<and>
            audited_partition info' = Some (arn_partition parsed))"
  using assms
  by (auto simp: audit_session_step_def default_region_def split: option.splits if_splits)

lemma provider_set_session_no_roles:
  assumes "Session_init api (Session input_profile None None) (world st) = (None, w1)"
    and "get_caller_identity api (Session input_profile None None) w1 = (Inr identity, w2)"
    and "arnparse lib (Arn identity) = Inr parsed"
    and "\<not> truthy input_role" and "\<not> truthy org"
  shows "\<exists>info st'.
           provider_set_session lib api input_profile input_role dur ext regions org st
             = (Returned info, st')"
  using assms
  by (auto simp: provider_set_session_def original_step_def and_then_def AWS_Provider_def
      set_session_def Let_def perform_def logger_def validate_credentials_def get_session_def
      organizations_step_def role_step_def audit_session_step_def default_region_def truthy_def
      split: option.splits)

text \<open>
  C7. Let the base session be constructed, the identity call answer and the caller's ARN
  parse. With no role configured at all the bootstrap returns. Whenever it returns: the
  original session is the base session; with no workload role the audit session is the
  original session and account and partition are those of the caller's identity; with a
  workload role the audit session is a new session with refreshable credentials whose
  callback closes over the workload role's spec, it differs from the original session, and
  account and partition are those of the parsed role ARN.
\<close>

theorem audit_identity:
  assumes "Session_init api (Session input_profile None None) (world st) = (None, w1)"
    and "get_caller_identity api (Session input_profile None None) w1 = (Inr identity, w2)"
    and "arnparse lib (Arn identity) = Inr parsed"
  shows
   "(\<not> truthy input_role \<and> \<not> truthy org \<longrightarrow>
       (\<exists>info st'. provider_set_session lib api input_profile input_role dur ext regions org st
                     = (Returned info, st'))) \<and>
    (\<forall>info st'.
       provider_set_session lib api input_profile input_role dur ext regions org st
         = (Returned info, st') \<longrightarrow>
       original_session info = Some (Session input_profile None None) \<and>
       (\<not> truthy input_role \<longrightarrow>
          audit_session info = original_session info \<and>
          audited_account info = Some (Account identity) \<and>
          audited_partition info = Some (arn_partition parsed)) \<and>
       (\<forall>role. input_role = Some role \<and> role \<noteq> [] \<longrightarrow>
          (\<exists>role_arn_parsed rc.
             arn_parsing lib role = Inr role_arn_parsed \<and>
             audit_session info = Some (Session input_profile (Some rc) None) \<and>
             rc_refresh_using rc =
               \<lparr>role_arn = Some role, session_duration = dur, external_id = ext\<rparr> \<and>
             audit_session info \<noteq> original_session info \<and>
             audited_account info = Some (arn_account_id role_arn_parsed) \<and>
             audited_partition info = Some (arn_partition role_arn_parsed))))"
proof (intro conjI allI impI)
  assume "\<not> truthy input_role \<and> \<not> truthy org"
  then show "\<exists>info st'. provider_set_session lib api input_profile input_role dur ext regions org st
                     = (Returned info, st')"
    using provider_set_session_no_roles [OF assms] by blast
next
  fix info st'
  assume run: "provider_set_session lib api input_profile input_role dur ext regions org st
         = (Returned info, st')"
  from run obtain info0 st0 info1 st1 info2 assumed st2 where
      s0: "original_step lib api input_profile regions st = (Returned info0, st0)"
    and s1: "organizations_step lib api dur org info0 st0 = (Returned info1, st1)"
    and s2: "role_step lib api input_role dur ext info1 st1 = (Returned (info2, assumed), st2)"
    and s3: "audit_session_step api info2 assumed st2 = (Returned info, st')"
    unfolding provider_set_session_def
    by (auto dest!: and_then_Returned)
  from original_step_Returned [OF s0] assms have i0:
    "info0 = \<lparr>original_session = Some (Session input_profile None None), audit_session = None,
             audited_account = Some (Account identity),
             audited_partition = Some (arn_partition parsed), profile = input_profile,
             profile_region = None, credentials = None,
             assumed_role_info =
               \<lparr>role_arn = None, session_duration = None, external_id = None\<rparr>,
             audited_regions = regions, organizations_metadata = None\<rparr>"
    by auto
  note i1 = organizations_step_Returned [OF s1]
  note i2 = role_step_Returned [OF s2]
  note i3 = audit_session_step_Returned [OF s3]
  show "original_session info = Some (Session input_profile None None)"
    using i0 i1 i2 i3 by simp
  show "audit_session info = original_session info"
    "audited_account info = Some (Account identity)"
    "audited_partition info = Some (arn_partition parsed)" if "\<not> truthy input_role"
    using that i0 i1 i2 i3 by simp_all
  fix role
  assume r: "input_role = Some role \<and> role \<noteq> []"
  show "\<exists>role_arn_parsed rc.
             arn_parsing lib role = Inr role_arn_parsed \<and>
             audit_session info = Some (Session input_profile (Some rc) None) \<and>
             rc_refresh_using rc =
               \<lparr>role_arn = Some role, session_duration = dur, external_id = ext\<rparr> \<and>
             audit_session info \<noteq> original_session info \<and>
             audited_account info = Some (arn_account_id role_arn_parsed) \<and>
             audited_partition info = Some (arn_partition role_arn_parsed)"
  proof -
    from i2 r obtain role_arn_parsed rc where
        p: "arn_parsing lib role = Inr role_arn_parsed"
      and a: "assumed = Some (Session (profile info1) (Some rc) (profile_region info1),
                               role_arn_parsed)"
      and c: "rc_refresh_using rc =
                 (assumed_role_info info1)\<lparr>role_arn := Some role, session_duration := dur,
                    external_id := ext\<rparr>"
      by blast
    have "audit_session info = Some (Session input_profile (Some rc) None)"
      using a i0 i1 i3 by simp
    moreover have "rc_refresh_using rc =
               \<lparr>role_arn = Some role, session_duration = dur, external_id = ext\<rparr>"
      using c by simp
    moreover have "audited_account info = Some (arn_account_id role_arn_parsed)"
      "audited_partition info = Some (arn_partition role_arn_parsed)"
      using a i3 by simp_all
    moreover have "original_session info = Some (Session input_profile None None)"
      using i0 i1 i2 i3 by simp
    ultimately show ?thesis using p by auto
  qed
qed

theorem audit_identity_witness:
  "(\<exists>info st'.
      provider_set_session example_lib (example_aws []) (Some ''audit'') None None None None None
        (start ()) = (Returned info, st') \<and>
      audit_session info = Some (Session (Some ''audit'') None None) \<and>
      audit_session info = original_session info \<and>
      audited_account info = Some ''111111111111'' \<and>
      audited_partition info = Some ''aws'') \<and>
   (\<exists>info st' rc.
      provider_set_session example_lib (example_aws []) (Some ''audit'')
        (Some ''arn:aws:iam::222222222222:role/audit'') (Some 3600) (Some ''shared-secret'')
        None None (start ()) = (Returned info, st') \<and>
      audit_session info = Some (Session (Some ''audit'') (Some rc) None) \<and>
      audit_session info \<noteq> original_session info \<and>
      audited_account info = Some ''222222222222'' \<and>
      audited_partition info = Some ''aws'')"
proof -
  have s: "Session_init (example_aws []) (Session (Some ''audit'') None None) (world (start ()))
             = (None, ())"
    and g: "get_caller_identity (example_aws []) (Session (Some ''audit'') None None) ()
             = (Inr example_identity, ())"
    and p: "arnparse example_lib (Arn example_identity)
             = Inr \<lparr>arn_partition = ''aws'', arn_service = ''iam'', arn_region = '''',
                    arn_account_id = ''111111111111'', arn_resource = ''user/auditor''\<rparr>"
    and q: "arn_parsing example_lib ''arn:aws:iam::222222222222:role/audit''
             = Inr \<lparr>arn_partition = ''aws'', arn_service = ''iam'', arn_region = '''',
                    arn_account_id = ''222222222222'', arn_resource = ''role/audit''\<rparr>"
    by (simp_all add: example_aws_def example_lib_def example_arnparse_def example_identity_def
        start_def)
  have r: "\<exists>info st'. provider_set_session example_lib (example_aws []) (Some ''audit'')
            (Some ''arn:aws:iam::222222222222:role/audit'') (Some 3600) (Some ''shared-secret'')
            None None (start ()) = (Returned info, st')"
    by (simp add: bootstrap_defs example_defs)
  have first: "\<exists>info st'.
      provider_set_session example_lib (example_aws []) (Some ''audit'') None None None None None
        (start ()) = (Returned info, st') \<and>
      audit_session info = Some (Session (Some ''audit'') None None) \<and>
      audit_session info = original_session info \<and>
      audited_account info = Some ''111111111111'' \<and>
      audited_partition info = Some ''aws''"
    using audit_identity [OF s g p, where input_role = None and org = None and dur = None
        and ext = None and regions = None]
    by (auto simp: truthy_def example_identity_def)
  have second: "\<exists>info st' rc.
      provider_set_session example_lib (example_aws []) (Some ''audit'')
        (Some ''arn:aws:iam::222222222222:role/audit'') (Some 3600) (Some ''shared-secret'')
        None None (start ()) = (Returned info, st') \<and>
      audit_session info = Some (Session (Some ''audit'') (Some rc) None) \<and>
      audit_session info \<noteq> original_session info \<and>
      audited_account info = Some ''222222222222'' \<and>
      audited_partition info = Some ''aws''"
    using r q audit_identity [OF s g p,
        where input_role = "Some ''arn:aws:iam::222222222222:role/audit''" and org = None
        and dur = "Some 3600" and ext = "Some ''shared-secret''" and regions = None]
    by (auto simp: truthy_def)
  from first second show ?thesis by blast
qed

section \<open>Regional clients\<close>


lemma client_regions_Nil [simp]: "client_regions [] = []"
  by (simp add: client_regions_def)

lemma client_regions_Cons [simp]:
  "client_regions (e # es) = client_region_of e @ client_regions es"
  by (simp add: client_regions_def)

lemma client_regions_append [simp]:
  "client_regions (xs @ ys) = client_regions xs @ client_regions ys"
  by (simp add: client_regions_def)

lemma new_events_same [simp]: "new_events st st = []"
  by (simp add: new_events_def)

lemma new_events_step:
  "trace st1 = trace st @ evs \<Longrightarrow> trace st' = trace st1 @ new_events st1 st' \<Longrightarrow>
     trace st' = trace st @ new_events st st' \<and> new_events st st' = evs @ new_events st1 st'"
proof -
  assume a: "trace st1 = trace st @ evs" and b: "trace st' = trace st1 @ new_events st1 st'"
  define rest where "rest = new_events st1 st'"
  have c: "trace st' = trace st @ evs @ rest"
    using a b by (simp add: rest_def)
  have "new_events st st' = evs @ rest"
    unfolding new_events_def c by simp
  with c show ?thesis by (simp add: rest_def)
qed

lemma regional_clients_loop_trace:
  "regional_clients_loop api service info regions acc st = (r, st') \<Longrightarrow>
     trace st' = trace st @ new_events st st' \<and>
     set (client_regions (new_events st st')) \<subseteq> set regions \<and>
     (regions = [] \<longrightarrow> r = Returned acc \<and> st' = st) \<and>
     (\<forall>clients. r = Returned clients \<longrightarrow>
        client_regions (new_events st st') = regions \<and>
        map client_region clients = map client_region acc @ regions \<and>
        (\<forall>c \<in> set clients. c \<in> set acc \<or>
           (client_service c = service \<and> Some (client_session c) = audit_session info)))"
proof (induction regions arbitrary: acc st)
  case Nil
  then show ?case by auto
next
  case (Cons region regions)
  show ?case
  proof (cases "audit_session info")
    case None
    with Cons.prems show ?thesis by auto
  next
    case (Some sess)
    show ?thesis
    proof (cases "client_init api sess service region (world st)")
      case (Pair err w1)
      show ?thesis
      proof (cases err)
        case (Some e)
        with Cons.prems \<open>audit_session info = Some sess\<close> Pair
        have "r = Raised e" "trace st' = trace st @ [Call (Client_new sess service region)]"
          by (auto simp: perform_def)
        then show ?thesis by (simp add: new_events_def)
      next
        case None
        let ?st1 = "\<lparr>world = w1, trace = trace st @ [Call (Client_new sess service region)]\<rparr>"
        let ?acc1 = "acc @ [\<lparr>client_service = service, client_session = sess,
                             client_region = region\<rparr>]"
        from Cons.prems \<open>audit_session info = Some sess\<close> Pair None
        have "regional_clients_loop api service info regions ?acc1 ?st1 = (r, st')"
          by (simp add: perform_def)
        note ih = Cons.IH [OF this]
        have st1: "trace ?st1 = trace st @ [Call (Client_new sess service region)]"
          by simp
        from new_events_step [OF st1 ih [THEN conjunct1]]
        have t: "trace st' = trace st @ new_events st st'"
          and n: "new_events st st' = Call (Client_new sess service region) # new_events ?st1 st'"
          by simp_all
        have B: "set (client_regions (new_events st st')) \<subseteq> set (region # regions)"
          using ih [THEN conjunct2, THEN conjunct1] n by auto
        have D: "\<forall>clients. r = Returned clients \<longrightarrow>
              client_regions (new_events st st') = region # regions \<and>
              map client_region clients = map client_region acc @ region # regions \<and>
              (\<forall>c \<in> set clients. c \<in> set acc \<or>
                 (client_service c = service \<and> Some (client_session c) = audit_session info))"
          using ih [THEN conjunct2, THEN conjunct2, THEN conjunct2] n
            \<open>audit_session info = Some sess\<close>
          by fastforce
        from t B D show ?thesis by simp
      qed
    qed
  qed
qed

text \<open>
  C8. When the services file lists regions for the service and the audited partition,
  \<^verbatim>\<open>generate_regional_clients\<close> constructs clients only for regions of that list and,
  when regions were requested, only for requested regions; the clients it returns are those
  it constructed, for the service and the audit session. When regions were requested and
  none is in the list, it returns the empty list and calls nothing.
\<close>

theorem regional_clients_regions:
  assumes "json_regions_of data service (audited_partition info) = Inr json_regions"
    and "generate_regional_clients data api service info st = (r, st')"
  shows "set (client_regions (new_events st st')) \<subseteq> set json_regions \<and>
     (\<forall>requested. audited_regions info = Some requested \<and> requested \<noteq> [] \<longrightarrow>
        set (client_regions (new_events st st')) \<subseteq> set requested) \<and>
     (\<forall>clients. r = Returned clients \<longrightarrow>
        map client_region clients = client_regions (new_events st st') \<and>
        (\<forall>c \<in> set clients.
           client_service c = service \<and> Some (client_session c) = audit_session info)) \<and>
     (\<forall>requested. audited_regions info = Some requested \<and> requested \<noteq> [] \<and>
        set json_regions \<inter> set requested = {} \<longrightarrow> r = Returned [] \<and> st' = st)"
proof -
  define regions where "regions =
     (if truthy_list (audited_regions info)
      then common_regions json_regions
             (case audited_regions info of Some rs \<Rightarrow> rs | None \<Rightarrow> [])
      else json_regions)"
  have run: "regional_clients_loop api service info regions [] st = (r, st')"
    using assms by (simp add: generate_regional_clients_def regions_def Let_def)
  note loop = regional_clients_loop_trace [OF run]
  note s = loop [THEN conjunct2, THEN conjunct1]
  note e = loop [THEN conjunct2, THEN conjunct2, THEN conjunct1]
  note c = loop [THEN conjunct2, THEN conjunct2, THEN conjunct2]
  have sub: "set regions \<subseteq> set json_regions"
    by (auto simp: regions_def common_regions_def)
  have req: "set regions \<subseteq> set requested"
    if "audited_regions info = Some requested" "requested \<noteq> []" for requested
    using that by (auto simp: regions_def common_regions_def truthy_list_def)
  have emp: "regions = []"
    if "audited_regions info = Some requested" "requested \<noteq> []"
       "set json_regions \<inter> set requested = {}" for requested
  proof -
    have "filter (\<lambda>r. r \<in> set requested) json_regions = []"
      using that(3) by (auto simp: filter_empty_conv)
    then show ?thesis
      using that(1,2) by (simp add: regions_def common_regions_def truthy_list_def)
  qed
  have 1: "set (client_regions (new_events st st')) \<subseteq> set json_regions"
    using s sub by simp
  have 2: "\<forall>requested. audited_regions info = Some requested \<and> requested \<noteq> [] \<longrightarrow>
        set (client_regions (new_events st st')) \<subseteq> set requested"
  proof (intro allI impI)
    fix requested
    assume "audited_regions info = Some requested \<and> requested \<noteq> []"
    then have "set regions \<subseteq> set requested" using req by simp
    with s show "set (client_regions (new_events st st')) \<subseteq> set requested" by simp
  qed
  have 3: "\<forall>clients. r = Returned clients \<longrightarrow>
        map client_region clients = client_regions (new_events st st') \<and>
        (\<forall>c \<in> set clients.
           client_service c = service \<and> Some (client_session c) = audit_session info)"
    using c by simp
  have 4: "\<forall>requested. audited_regions info = Some requested \<and> requested \<noteq> [] \<and>
        set json_regions \<inter> set requested = {} \<longrightarrow> r = Returned [] \<and> st' = st"
  proof (intro allI impI)
    fix requested
    assume "audited_regions info = Some requested \<and> requested \<noteq> [] \<and>
        set json_regions \<inter> set requested = {}"
    then have "regions = []" using emp by simp
    with e show "r = Returned [] \<and> st' = st" by simp
  qed
  show ?thesis
    by (rule conjI [OF 1 conjI [OF 2 conjI [OF 3 4]]])
qed




theorem regional_clients_regions_witness:
  "fst (generate_regional_clients example_catalog (example_aws []) ''ec2''
          (example_audit_info\<lparr>audited_regions := Some [''eu-west-1'', ''ap-south-1'']\<rparr>)
          (start ()))
     = Returned [\<lparr>client_service = ''ec2'', client_session = Session None None None,
                  client_region = ''eu-west-1''\<rparr>] \<and>
   set (client_regions (new_events (start ())
          (snd (generate_regional_clients example_catalog (example_aws []) ''ec2''
                  (example_audit_info\<lparr>audited_regions := Some [''eu-west-1'', ''ap-south-1'']\<rparr>)
                  (start ())))))
     \<subseteq> {''eu-west-1'', ''ap-south-1''} \<and>
   generate_regional_clients example_catalog (example_aws []) ''ec2''
       (example_audit_info\<lparr>audited_regions := Some [''ap-south-1'']\<rparr>) (start ())
     = (Returned [], start ())"
proof -
  let ?info = "example_audit_info\<lparr>audited_regions := Some [''eu-west-1'', ''ap-south-1'']\<rparr>"
  let ?none = "example_audit_info\<lparr>audited_regions := Some [''ap-south-1'']\<rparr>"
  have j: "json_regions_of example_catalog ''ec2'' (audited_partition ?info)
             = Inr [''us-east-1'', ''eu-west-1'']"
       "json_regions_of example_catalog ''ec2'' (audited_partition ?none)
             = Inr [''us-east-1'', ''eu-west-1'']"
    by (simp_all add: json_regions_of_def example_catalog_def example_audit_info_def)
  have v: "fst (generate_regional_clients example_catalog (example_aws []) ''ec2'' ?info
                 (start ()))
     = Returned [\<lparr>client_service = ''ec2'', client_session = Session None None None,
                  client_region = ''eu-west-1''\<rparr>]"
    by (simp add: generate_regional_clients_def json_regions_of_def example_catalog_def
        example_audit_info_def truthy_list_def common_regions_def perform_def example_aws_def
        start_def)
  have a: "set (client_regions (new_events (start ())
          (snd (generate_regional_clients example_catalog (example_aws []) ''ec2'' ?info
                  (start ())))))
     \<subseteq> {''eu-west-1'', ''ap-south-1''}"
    using regional_clients_regions [OF j(1), of "example_aws []" "start ()"
        "fst (generate_regional_clients example_catalog (example_aws []) ''ec2'' ?info (start ()))"
        "snd (generate_regional_clients example_catalog (example_aws []) ''ec2'' ?info (start ()))"]
    by (simp add: example_audit_info_def)
  have b: "generate_regional_clients example_catalog (example_aws []) ''ec2'' ?none (start ())
     = (Returned [], start ())"
    using regional_clients_regions [OF j(2), of "example_aws []" "start ()"
        "fst (generate_regional_clients example_catalog (example_aws []) ''ec2'' ?none (start ()))"
        "snd (generate_regional_clients example_catalog (example_aws []) ''ec2'' ?none (start ()))"]
    by (simp add: prod_eq_iff)
  from v a b show ?thesis by blast
qed

section \<open>Chunks, groups and the trace of the archiving\<close>

lemma range_step_Suc:
  "0 < n \<Longrightarrow> range_step n 100 = 0 # map (\<lambda>i. i + 100) (range_step (n - 100) 100)"
proof -
  assume n: "0 < n"
  define k where "k = (n - 100 + 100 - 1) div 100"
  have k: "(n + 100 - 1) div 100 = Suc k"
  proof (cases "n \<le> 100")
    case True
    then have "k = 0" by (simp add: k_def)
    moreover have "(n + 100 - 1) div 100 = 1"
      using n True by (intro div_nat_eqI) simp_all
    ultimately show ?thesis by simp
  next
    case False
    then obtain m where m: "n = m + 100"
      by (metis le_iff_add add.commute nat_le_linear)
    have "(m + 100 + 100 - 1) div 100 = Suc ((m + 100 - 1) div 100)"
    proof -
      have "m + 100 + 100 - 1 = (m + 100 - 1) + 100" by simp
      then show ?thesis by (simp only: div_add_self2)
    qed
    then show ?thesis by (simp add: k_def m)
  qed
  have "[0..<Suc k] = 0 # map Suc [0..<k]"
    by (simp add: upt_conv_Cons map_Suc_upt del: upt_Suc)
  then show ?thesis
    unfolding range_step_def k k_def [symmetric] by (simp add: comp_def)
qed

lemma list_chunked_Nil [simp]: "list_chunked [] = []"
  by (simp add: list_chunked_def range_step_def)

lemma list_chunked_rec:
  "xs \<noteq> [] \<Longrightarrow> list_chunked xs = take 100 xs # list_chunked (drop 100 xs)"
  by (simp add: list_chunked_def range_step_Suc slice_def comp_def add.commute)

lemma concat_list_chunked [simp]: "concat (list_chunked xs) = xs"
proof (induction "length xs" arbitrary: xs rule: less_induct)
  case less
  show ?case
  proof (cases "xs = []")
    case True
    then show ?thesis by simp
  next
    case False
    then have "length (drop 100 xs) < length xs" by simp
    from less [OF this] False show ?thesis
      by (simp add: list_chunked_rec)
  qed
qed

lemma list_chunked_sizes:
  "c \<in> set (list_chunked xs) \<Longrightarrow> length c \<le> 100 \<and> c \<noteq> []"
proof (induction "length xs" arbitrary: xs rule: less_induct)
  case less
  show ?case
  proof (cases "xs = []")
    case True
    with less.prems show ?thesis by simp
  next
    case False
    then have l: "length (drop 100 xs) < length xs" by simp
    from less.prems False have "c = take 100 xs \<or> c \<in> set (list_chunked (drop 100 xs))"
      by (simp add: list_chunked_rec)
    then show ?thesis
    proof
      assume "c = take 100 xs"
      with False show ?thesis by simp
    next
      assume "c \<in> set (list_chunked (drop 100 xs))"
      from less.hyps [OF l this] show ?thesis .
    qed
  qed
qed

lemma list_chunked_250:
  "length xs = 250 \<Longrightarrow> map length (list_chunked xs) = [100, 100, 50]"
proof -
  assume l: "length xs = 250"
  then have 1: "xs \<noteq> []" by auto
  from l have 2: "drop 100 xs \<noteq> []" by auto
  from l have 3: "drop 100 (drop 100 xs) \<noteq> []" by auto
  from l have 4: "drop 100 (drop 100 (drop 100 xs)) = []" by auto
  show ?thesis
    using l by (simp add: list_chunked_rec [OF 1] list_chunked_rec [OF 2]
        list_chunked_rec [OF 3] 4 del: drop_drop)
qed





lemma new_events_snoc:
  "trace st' = trace st @ evs \<Longrightarrow>
     trace st' = trace st @ new_events st st' \<and> new_events st st' = evs"
  by (simp add: new_events_def)

lemma batches_Nil [simp]: "batches [] = []"
  by (simp add: batches_def)

lemma batches_Cons [simp]: "batches (e # es) = batch_of e @ batches es"
  by (simp add: batches_def)

lemma batches_append [simp]: "batches (xs @ ys) = batches xs @ batches ys"
  by (simp add: batches_def)

lemma queries_Nil [simp]: "queries [] = []"
  by (simp add: queries_def)

lemma queries_Cons [simp]: "queries (e # es) = query_of e @ queries es"
  by (simp add: queries_def)

lemma queries_append [simp]: "queries (xs @ ys) = queries xs @ queries ys"
  by (simp add: queries_def)

lemma hub_checks_Nil [simp]: "hub_checks [] = []"
  by (simp add: hub_checks_def)

lemma hub_checks_Cons [simp]: "hub_checks (e # es) = hub_check_of e @ hub_checks es"
  by (simp add: hub_checks_def)

lemma hub_checks_append [simp]: "hub_checks (xs @ ys) = hub_checks xs @ hub_checks ys"
  by (simp add: hub_checks_def)

lemma errors_Nil [simp]: "errors [] = []"
  by (simp add: errors_def)

lemma errors_Cons [simp]: "errors (e # es) = error_of e @ errors es"
  by (simp add: errors_def)

lemma errors_append [simp]: "errors (xs @ ys) = errors xs @ errors ys"
  by (simp add: errors_def)

text \<open>What \<open>report_failed\<close> can do: nothing, one error entry, or raise.\<close>

lemma report_failed_cases:
  "report_failed resp st = (err, st') \<Longrightarrow>
     (err = None \<and> st' = st \<and> \<not> 0 < FailedCount resp) \<or>
     (err = None \<and> 0 < FailedCount resp \<and>
        (\<exists>f more. FailedFindings resp = f # more \<and>
           st' = st\<lparr>trace := trace st @ [Log ERROR (failed_message f)]\<rparr>)) \<or>
     (err = Some (Exn ''IndexError'' ''list index out of range'') \<and> st' = st \<and>
        0 < FailedCount resp \<and> FailedFindings resp = [])"
  by (cases "FailedFindings resp")
     (auto simp: report_failed_def py_index_def logger_def failed_message_def split: if_splits)

lemma report_failed_trace:
  "report_failed resp st = (err, st') \<Longrightarrow>
     world st' = world st \<and>
     trace st' = trace st @ new_events st st' \<and>
     batches (new_events st st') = [] \<and> queries (new_events st st') = [] \<and>
     hub_checks (new_events st st') = []"
  by (drule report_failed_cases) (auto simp: new_events_def)

lemma submit_chunks_trace:
  "submit_chunks hub sess region chunks st = (err, st') \<Longrightarrow>
     trace st' = trace st @ new_events st st' \<and>
     batches (new_events st st') = take (length (batches (new_events st st'))) chunks \<and>
     (err = None \<longrightarrow> batches (new_events st st') = chunks) \<and>
     queries (new_events st st') = [] \<and> hub_checks (new_events st st') = []"
proof (induction chunks arbitrary: st)
  case Nil
  then show ?case by simp
next
  case (Cons findings rest)
  let ?call = "Call (Securityhub_batch_import_findings region findings)"
  obtain answer w1 where a: "batch_import_findings hub sess region findings (world st) = (answer, w1)"
    by (cases "batch_import_findings hub sess region findings (world st)")
  let ?st1 = "\<lparr>world = w1, trace = trace st @ [?call]\<rparr>"
  have t1: "trace ?st1 = trace st @ [?call]" by simp
  show ?case
  proof (cases answer)
    case (Inl e)
    with Cons.prems a have "st' = ?st1" "err = Some e"
      by (simp_all add: perform_def)
    then show ?thesis by (simp add: new_events_def)
  next
    case (Inr resp)
    obtain err2 st2 where r: "report_failed resp ?st1 = (err2, st2)"
      by (cases "report_failed resp ?st1")
    note rt = report_failed_trace [OF r]
    from new_events_step [OF t1 rt [THEN conjunct2, THEN conjunct1]]
    have t2: "trace st2 = trace st @ new_events st st2"
      and n2: "new_events st st2 = ?call # new_events ?st1 st2"
      by simp_all
    show ?thesis
    proof (cases err2)
      case (Some e)
      with Cons.prems a Inr r have "st' = st2" "err = Some e"
        by (simp_all add: perform_def)
      with t2 n2 rt show ?thesis by simp
    next
      case None
      with Cons.prems a Inr r
      have rec: "submit_chunks hub sess region rest st2 = (err, st')"
        by (simp add: perform_def)
      note ih = Cons.IH [OF rec]
      from new_events_step [OF t2 ih [THEN conjunct1]]
      have t: "trace st' = trace st @ new_events st st'"
        and n: "new_events st st' = new_events st st2 @ new_events st2 st'"
        by simp_all
      have b: "batches (new_events st st') = findings # batches (new_events st2 st')"
        using n n2 rt by simp
      have q: "queries (new_events st st') = []" "hub_checks (new_events st st') = []"
        using n n2 rt ih by simp_all
      have p: "batches (new_events st st') = take (length (batches (new_events st st')))
                 (findings # rest)"
        using b ih [THEN conjunct2, THEN conjunct1] by simp
      have f: "err = None \<longrightarrow> batches (new_events st st') = findings # rest"
        using b ih by simp
      from t p f q show ?thesis by simp
    qed
  qed
qed

lemma archive_region_try_no_session:
  "audit_session info = None \<Longrightarrow>
     archive_region_try hub cfg info region current st
       = (Some (no_attribute ''NoneType'' ''client''), st)"
  by (simp add: archive_region_try_def)

lemma archive_region_try_disabled:
  "audit_session info = Some sess \<Longrightarrow>
   describe_hub hub sess region (world st) = (Some e, w1) \<Longrightarrow>
     archive_region_try hub cfg info region current st
       = (Some e, \<lparr>world = w1, trace = trace st @ [Call (Securityhub_describe_hub region)]\<rparr>)"
  by (simp add: archive_region_try_def perform_def)

lemma archive_region_try_query_fails:
  "audit_session info = Some sess \<Longrightarrow>
   describe_hub hub sess region (world st) = (None, w1) \<Longrightarrow>
   get_findings hub sess region (findings_filter_of info region) w1 = (Inl e, w2) \<Longrightarrow>
     archive_region_try hub cfg info region current st
       = (Some e,
          \<lparr>world = w2,
           trace = trace st @
             [Call (Securityhub_describe_hub region),
              Call (Securityhub_get_findings region (findings_filter_of info region))]\<rparr>)"
  by (simp add: archive_region_try_def perform_def Let_def)

lemma archive_region_try_query:
  "audit_session info = Some sess \<Longrightarrow>
   describe_hub hub sess region (world st) = (None, w1) \<Longrightarrow>
   get_findings hub sess region (findings_filter_of info region) w1 = (Inr pages, w2) \<Longrightarrow>
     archive_region_try hub cfg info region current st
       = submit_chunks hub sess region
           (list_chunked (findings_to_archive_of cfg (map finding_Id current) pages))
           \<lparr>world = w2,
            trace = trace st @
              [Call (Securityhub_describe_hub region),
               Call (Securityhub_get_findings region (findings_filter_of info region)),
               Log INFO (''Archiving ''
                  @ str_nat (length (findings_to_archive_of cfg (map finding_Id current) pages))
                  @ '' findings.'')]\<rparr>"
  by (simp add: archive_region_try_def perform_def Let_def logger_def)

text \<open>One group, when the hub is enabled and the query answers.\<close>

lemma archive_region_try_answered:
  assumes "audit_session info = Some sess"
    and "describe_hub hub sess region (world st) = (None, w1)"
    and "get_findings hub sess region (findings_filter_of info region) w1 = (Inr pages, w2)"
    and "archive_region_try hub cfg info region current st = (err, st')"
  shows "trace st' = trace st @ new_events st st' \<and>
     hub_checks (new_events st st') = [region] \<and>
     queries (new_events st st') = [(region, findings_filter_of info region)] \<and>
     batches (new_events st st')
       = take (length (batches (new_events st st')))
           (list_chunked (findings_to_archive_of cfg (map finding_Id current) pages)) \<and>
     (err = None \<longrightarrow>
        batches (new_events st st')
          = list_chunked (findings_to_archive_of cfg (map finding_Id current) pages))"
proof -
  let ?A = "findings_to_archive_of cfg (map finding_Id current) pages"
  let ?evs = "[Call (Securityhub_describe_hub region),
               Call (Securityhub_get_findings region (findings_filter_of info region)),
               Log INFO (''Archiving '' @ str_nat (length ?A) @ '' findings.'')]"
  let ?st1 = "\<lparr>world = w2, trace = trace st @ ?evs\<rparr>"
  have s: "submit_chunks hub sess region (list_chunked ?A) ?st1 = (err, st')"
    using archive_region_try_query [OF assms(1-3), of cfg current] assms(4) by simp
  note sub = submit_chunks_trace [OF s]
  have t1: "trace ?st1 = trace st @ ?evs" by simp
  from new_events_step [OF t1 sub [THEN conjunct1]]
  have t: "trace st' = trace st @ new_events st st'"
    and n: "new_events st st' = ?evs @ new_events ?st1 st'"
    by simp_all
  have b: "batches (new_events st st') = batches (new_events ?st1 st')"
    and q: "queries (new_events st st') = [(region, findings_filter_of info region)]"
    and h: "hub_checks (new_events st st') = [region]"
    using n sub by simp_all
  from t h q b sub show ?thesis by simp
qed

text \<open>One group, whatever happens.\<close>

lemma archive_region_try_trace:
  assumes "archive_region_try hub cfg info region current st = (err, st')"
  shows "trace st' = trace st @ new_events st st' \<and>
     (\<forall>b \<in> set (batches (new_events st st')). length b \<le> 100) \<and>
     set (queries (new_events st st')) \<subseteq> {(region, findings_filter_of info region)} \<and>
     length (queries (new_events st st')) \<le> 1 \<and>
     (\<forall>sess. audit_session info = Some sess \<longrightarrow> hub_checks (new_events st st') = [region])"
proof (cases "audit_session info")
  case None
  with assms show ?thesis by (simp add: archive_region_try_no_session)
next
  case (Some sess)
  obtain d w1 where d: "describe_hub hub sess region (world st) = (d, w1)"
    by (cases "describe_hub hub sess region (world st)")
  show ?thesis
  proof (cases d)
    case (Some e)
    from archive_region_try_disabled [OF \<open>audit_session info = Some sess\<close> d [unfolded Some]]
      assms
    have "trace st' = trace st @ [Call (Securityhub_describe_hub region)]" by auto
    from new_events_snoc [OF this] \<open>audit_session info = Some sess\<close>
    show ?thesis by simp
  next
    case None
    note d' = d [unfolded None]
    obtain g w2 where g: "get_findings hub sess region (findings_filter_of info region) w1 = (g, w2)"
      by (cases "get_findings hub sess region (findings_filter_of info region) w1")
    show ?thesis
    proof (cases g)
      case (Inl e)
      from archive_region_try_query_fails [OF \<open>audit_session info = Some sess\<close> d' g [unfolded Inl]]
        assms
      have "trace st' = trace st @
             [Call (Securityhub_describe_hub region),
              Call (Securityhub_get_findings region (findings_filter_of info region))]"
        by auto
      from new_events_snoc [OF this] \<open>audit_session info = Some sess\<close>
      show ?thesis by simp
    next
      case (Inr pages)
      note a = archive_region_try_answered
        [OF \<open>audit_session info = Some sess\<close> d' g [unfolded Inr] assms]
      have "\<forall>b \<in> set (batches (new_events st st')). length b \<le> 100"
      proof
        fix b
        assume "b \<in> set (batches (new_events st st'))"
        then have "b \<in> set (take (length (batches (new_events st st')))
           (list_chunked (findings_to_archive_of cfg (map finding_Id current) pages)))"
          using a by simp
        then have "b \<in> set (list_chunked
           (findings_to_archive_of cfg (map finding_Id current) pages))"
          by (rule in_set_takeD)
        then show "length b \<le> 100"
          using list_chunked_sizes by blast
      qed
      with a \<open>audit_session info = Some sess\<close> show ?thesis by simp
    qed
  qed
qed

lemma archive_groups_step:
  "py_index (str_split CHR '':'' product_arn) 3 = Inr region \<Longrightarrow>
   archive_region_try hub cfg info region current st = (err, st1) \<Longrightarrow>
     archive_groups hub cfg info ((product_arn, current) # groups) st
       = archive_groups hub cfg info groups (after_region err region st1)"
  by (cases err) (simp_all add: after_region_def)

lemma after_region_trace:
  "trace (after_region err region st) = trace st @ new_events st (after_region err region st) \<and>
   batches (new_events st (after_region err region st)) = [] \<and>
   queries (new_events st (after_region err region st)) = [] \<and>
   hub_checks (new_events st (after_region err region st)) = [] \<and>
   world (after_region err region st) = world st"
  by (cases err) (simp_all add: after_region_def logger_def new_events_def)

lemma py_index_3:
  "py_index xs 3 = (if 3 < length xs then Inr (xs ! 3) else
     Inl (Exn ''IndexError'' ''list index out of range''))"
  by (simp add: py_index_def)

text \<open>The events of one group: those of the region and the error entry after it.\<close>

lemma group_events:
  assumes "archive_region_try hub cfg info region current st = (err, st1)"
  shows "trace (after_region err region st1)
           = trace st @ new_events st (after_region err region st1) \<and>
         batches (new_events st (after_region err region st1)) = batches (new_events st st1) \<and>
         queries (new_events st (after_region err region st1)) = queries (new_events st st1) \<and>
         hub_checks (new_events st (after_region err region st1))
           = hub_checks (new_events st st1)"
proof -
  note r = archive_region_try_trace [OF assms]
  note a = after_region_trace [of err region st1]
  have t1: "trace st1 = trace st @ new_events st st1"
    using r by (rule conjunct1)
  from new_events_step [OF t1 a [THEN conjunct1]]
  have "trace (after_region err region st1)
           = trace st @ new_events st (after_region err region st1)"
    and "new_events st (after_region err region st1)
           = new_events st st1 @ new_events st1 (after_region err region st1)"
    by simp_all
  with a show ?thesis by simp
qed

lemma archive_groups_trace:
  "archive_groups hub cfg info groups st = (r, st') \<Longrightarrow>
     trace st' = trace st @ new_events st st' \<and>
     (\<forall>b \<in> set (batches (new_events st st')). length b \<le> 100)"
proof (induction groups arbitrary: st)
  case Nil
  then show ?case by simp
next
  case (Cons group groups)
  obtain product_arn current where group: "group = (product_arn, current)"
    by (cases group)
  show ?case
  proof (cases "3 < length (str_split CHR '':'' product_arn)")
    case False
    with Cons.prems group have "st' = st"
      by (simp add: py_index_3)
    then show ?thesis by simp
  next
    case True
    define region where "region = str_split CHR '':'' product_arn ! 3"
    have p: "py_index (str_split CHR '':'' product_arn) 3 = Inr region"
      using True by (simp add: py_index_3 region_def)
    obtain err st1 where a: "archive_region_try hub cfg info region current st = (err, st1)"
      by (cases "archive_region_try hub cfg info region current st")
    let ?st2 = "after_region err region st1"
    have rec: "archive_groups hub cfg info groups ?st2 = (r, st')"
      using Cons.prems archive_groups_step [OF p a] group by simp
    note ih = Cons.IH [OF rec]
    note g = group_events [OF a]
    note rt = archive_region_try_trace [OF a]
    from new_events_step [OF g [THEN conjunct1] ih [THEN conjunct1]]
    have t: "trace st' = trace st @ new_events st st'"
      and n: "new_events st st' = new_events st ?st2 @ new_events ?st2 st'"
      by simp_all
    have "batches (new_events st st') = batches (new_events st st1) @ batches (new_events ?st2 st')"
      using n g by simp
    then have "\<forall>b \<in> set (batches (new_events st st')). length b \<le> 100"
      using rt ih by auto
    with t show ?thesis by simp
  qed
qed


section \<open>Batches of at most 100\<close>

text \<open>
  C4. The chunks of a list, joined, are the list; each has at most 100 elements and none
  is empty; a list of 250 gives chunks of 100, 100 and 50. No submission of
  \<^verbatim>\<open>resolve_security_hub_previous_findings\<close> holds more than 100 findings, whatever
  the file and the hub. For a group whose hub is enabled and whose query answers, when no
  submission raises, the submissions are the chunks of the findings to archive, in order.
\<close>

theorem batches_of_100:
  "concat (list_chunked xs) = xs \<and>
   (\<forall>c \<in> set (list_chunked xs). length c \<le> 100 \<and> c \<noteq> []) \<and>
   (length xs = 250 \<longrightarrow> map length (list_chunked xs) = [100, 100, 50]) \<and>
   (\<forall>b \<in> set (batches (new_events st
        (snd (resolve_security_hub_previous_findings hub cfg output_directory info st)))).
      length b \<le> 100) \<and>
   (audit_session info = Some sess \<and>
    describe_hub hub sess region (world st) = (None, w1) \<and>
    get_findings hub sess region (findings_filter_of info region) w1 = (Inr pages, w2) \<and>
    fst (archive_region_try hub cfg info region current st) = None \<longrightarrow>
      batches (new_events st (snd (archive_region_try hub cfg info region current st)))
        = list_chunked (findings_to_archive_of cfg (map finding_Id current) pages) \<and>
      concat (batches (new_events st (snd (archive_region_try hub cfg info region current st))))
        = findings_to_archive_of cfg (map finding_Id current) pages)"
proof (intro conjI)
  show "concat (list_chunked xs) = xs" by simp
  show "\<forall>c \<in> set (list_chunked xs). length c \<le> 100 \<and> c \<noteq> []"
    using list_chunked_sizes by blast
  show "length xs = 250 \<longrightarrow> map length (list_chunked xs) = [100, 100, 50]"
    using list_chunked_250 by blast
  show "\<forall>b \<in> set (batches (new_events st
        (snd (resolve_security_hub_previous_findings hub cfg output_directory info st)))).
      length b \<le> 100"
  proof -
    let ?path = "findings_file cfg output_directory info"
    let ?st0 = "logger INFO ''Checking previous findings in Security Hub to archive them.'' st"
    obtain answer w where l: "json_load hub ?path (world ?st0) = (answer, w)"
      by (cases "json_load hub ?path (world ?st0)")
    let ?st1 = "\<lparr>world = w, trace = trace st @
        [Log INFO ''Checking previous findings in Security Hub to archive them.'',
         Call (File_open ?path)]\<rparr>"
    have t1: "trace ?st1 = trace st @
        [Log INFO ''Checking previous findings in Security Hub to archive them.'',
         Call (File_open ?path)]" by simp
    show ?thesis
    proof (cases answer)
      case (Inl e)
      then have "resolve_security_hub_previous_findings hub cfg output_directory info st
                   = (Raised e, ?st1)"
        using l by (simp add: resolve_security_hub_previous_findings_def perform_def logger_def)
      then show ?thesis by (simp add: new_events_def)
    next
      case (Inr json_asff_file)
      let ?groups = "groupby ProductArn (sort_key ProductArn json_asff_file)"
      have run: "resolve_security_hub_previous_findings hub cfg output_directory info st
                   = archive_groups hub cfg info ?groups ?st1"
        using l Inr
        by (simp add: resolve_security_hub_previous_findings_def perform_def logger_def)
      obtain r st' where g: "archive_groups hub cfg info ?groups ?st1 = (r, st')"
        by (cases "archive_groups hub cfg info ?groups ?st1")
      note gt = archive_groups_trace [OF g]
      from new_events_step [OF t1 gt [THEN conjunct1]]
      have "new_events st st' =
        [Log INFO ''Checking previous findings in Security Hub to archive them.'',
         Call (File_open ?path)] @ new_events ?st1 st'"
        by simp
      then have "batches (new_events st st') = batches (new_events ?st1 st')"
        by simp
      with gt run g show ?thesis by simp
    qed
  qed
  show "audit_session info = Some sess \<and>
    describe_hub hub sess region (world st) = (None, w1) \<and>
    get_findings hub sess region (findings_filter_of info region) w1 = (Inr pages, w2) \<and>
    fst (archive_region_try hub cfg info region current st) = None \<longrightarrow>
      batches (new_events st (snd (archive_region_try hub cfg info region current st)))
        = list_chunked (findings_to_archive_of cfg (map finding_Id current) pages) \<and>
      concat (batches (new_events st (snd (archive_region_try hub cfg info region current st))))
        = findings_to_archive_of cfg (map finding_Id current) pages"
  proof
    assume h: "audit_session info = Some sess \<and>
      describe_hub hub sess region (world st) = (None, w1) \<and>
      get_findings hub sess region (findings_filter_of info region) w1 = (Inr pages, w2) \<and>
      fst (archive_region_try hub cfg info region current st) = None"
    obtain err st' where a: "archive_region_try hub cfg info region current st = (err, st')"
      by (cases "archive_region_try hub cfg info region current st")
    from h a have e: "err = None" by simp
    from archive_region_try_answered [OF h [THEN conjunct1] h [THEN conjunct2, THEN conjunct1]
        h [THEN conjunct2, THEN conjunct2, THEN conjunct1] a] e
    have "batches (new_events st st')
            = list_chunked (findings_to_archive_of cfg (map finding_Id current) pages)"
      by simp
    with a show "batches (new_events st (snd (archive_region_try hub cfg info region current st)))
        = list_chunked (findings_to_archive_of cfg (map finding_Id current) pages) \<and>
      concat (batches (new_events st (snd (archive_region_try hub cfg info region current st))))
        = findings_to_archive_of cfg (map finding_Id current) pages"
      by simp
  qed
qed

theorem batches_of_100_witness:
  "map length (list_chunked (replicate 250 finding1)) = [100, 100, 50] \<and>
   concat (list_chunked (replicate 250 finding1)) = replicate 250 finding1 \<and>
   list_all (\<lambda>c. length c \<le> 100 \<and> c \<noteq> []) (list_chunked (replicate 250 finding1)) \<and>
   batches (new_events (start [finding1, finding2])
      (snd (resolve_security_hub_previous_findings (store_hub [''us-east-1''] [finding1])
              example_config ''output'' example_audit_info (start [finding1, finding2]))))
     = [[archived finding2]] \<and>
   list_all (\<lambda>b. length b \<le> 100)
     (batches (new_events (start [finding1, finding2])
        (snd (resolve_security_hub_previous_findings (store_hub [''us-east-1''] [finding1])
                example_config ''output'' example_audit_info (start [finding1, finding2]))))) \<and>
   batches (new_events (start [finding1, finding2])
      (snd (archive_region_try (store_hub [''us-east-1''] [finding1]) example_config
              example_audit_info ''us-east-1'' [finding1] (start [finding1, finding2]))))
     = list_chunked [archived finding2]"
proof -
  let ?hub = "store_hub [''us-east-1''] [finding1]"
  let ?run = "resolve_security_hub_previous_findings ?hub example_config ''output''
                example_audit_info (start [finding1, finding2])"
  note t = batches_of_100 [where xs = "replicate 250 finding1" and hub = ?hub and cfg = example_config
      and output_directory = "''output''" and info = example_audit_info
      and st = "start [finding1, finding2]" and sess = "Session None None None" and region = "''us-east-1''"
      and ?w1.0 = "[finding1, finding2]" and ?w2.0 = "[finding1, finding2]" and current = "[finding1]"
      and pages = "list_chunked (filter (matches (findings_filter_of example_audit_info
                      ''us-east-1'')) [finding1, finding2])"]
  have a: "map length (list_chunked (replicate 250 finding1)) = [100, 100, 50]"
    using t by simp
  have b: "concat (list_chunked (replicate 250 finding1)) = replicate 250 finding1"
    using t by blast
  have c: "list_all (\<lambda>c. length c \<le> 100 \<and> c \<noteq> []) (list_chunked (replicate 250 finding1))"
    using t unfolding list_all_iff by blast
  have v: "batches (new_events (start [finding1, finding2]) (snd ?run)) = [[archived finding2]]"
    by code_simp
  have d: "list_all (\<lambda>b. length b \<le> 100) (batches (new_events (start [finding1, finding2]) (snd ?run)))"
    using t unfolding list_all_iff by blast
  have h1: "audit_session example_audit_info = Some (Session None None None)"
    by (simp add: example_audit_info_def)
  have h2: "describe_hub ?hub (Session None None None) ''us-east-1'' (world (start [finding1, finding2]))
              = (None, [finding1, finding2])"
    by (simp add: store_hub_def start_def)
  have h3: "get_findings ?hub (Session None None None) ''us-east-1''
              (findings_filter_of example_audit_info ''us-east-1'') [finding1, finding2]
              = (Inr (list_chunked (filter (matches (findings_filter_of example_audit_info
                      ''us-east-1'')) [finding1, finding2])), [finding1, finding2])"
    by (simp add: store_hub_def)
  have h4: "fst (archive_region_try ?hub example_config example_audit_info ''us-east-1'' [finding1]
                   (start [finding1, finding2])) = None"
    by code_simp
  have p: "findings_to_archive_of example_config (map finding_Id [finding1])
             (list_chunked (filter (matches (findings_filter_of example_audit_info
                      ''us-east-1'')) [finding1, finding2])) = [archived finding2]"
    by code_simp
  have e: "batches (new_events (start [finding1, finding2])
      (snd (archive_region_try ?hub example_config example_audit_info ''us-east-1'' [finding1]
              (start [finding1, finding2]))))
     = list_chunked [archived finding2]"
    using t h1 h2 h3 h4 p by simp
  from a b c v d e show ?thesis by blast
qed

section \<open>Failures of a batch and of a region\<close>

lemma report_failed_listed:
  "0 < FailedCount resp \<Longrightarrow> FailedFindings resp = f # others \<Longrightarrow>
     report_failed resp st = (None, st\<lparr>trace := trace st @ [Log ERROR (failed_message f)]\<rparr>)"
  by (simp add: report_failed_def py_index_def logger_def failed_message_def)





text \<open>
  C10. When a submission answers with a failed count above zero and lists its failed
  findings, one error entry is logged, made of the first failed finding's error code and
  message; the state after it does not depend on the other failed findings. This holds at
  both places: a chunk of \<^verbatim>\<open>resolve_security_hub_previous_findings\<close> and the single
  finding of \<^verbatim>\<open>send_to_security_hub\<close>.
\<close>

theorem first_failed_finding_logged:
  "(0 < FailedCount resp \<and> FailedFindings resp = f # others \<longrightarrow>
      report_failed resp st
        = (None, st\<lparr>trace := trace st @ [Log ERROR (failed_message f)]\<rparr>) \<and>
      report_failed resp st = report_failed (resp\<lparr>FailedFindings := [f]\<rparr>) st) \<and>
   (batch_import_findings hub sess region b (world st) = (Inr resp, w') \<and>
    0 < FailedCount resp \<and> FailedFindings resp = f # others \<longrightarrow>
      submit_chunks hub sess region [b] st
        = (None,
           \<lparr>world = w',
            trace = trace st @
              [Call (Securityhub_batch_import_findings region b),
               Log ERROR (failed_message f)]\<rparr>) \<and>
      errors (new_events st (snd (submit_chunks hub sess region [b] st))) = [failed_message f]) \<and>
   (describe_hub hub sess region (world st) = (None, w1) \<and>
    list_enabled_products_for_import hub sess region w1 = (Inr products, w2) \<and>
    batch_import_findings hub sess region [finding_output] w2 = (Inr resp, w') \<and>
    0 < FailedCount resp \<and> FailedFindings resp = f # others \<longrightarrow>
      send_to_security_hub hub region finding_output sess st
        = \<lparr>world = w',
           trace = trace st @
             [Log INFO ''Sending findings to Security Hub.'',
              Call (Securityhub_describe_hub region),
              Call (Securityhub_list_enabled_products_for_import region)] @
             (if contains ''prowler/prowler'' products then []
              else [Log ERROR (integration_message region)]) @
             [Call (Securityhub_batch_import_findings region [finding_output]),
              Log ERROR (failed_message f)]\<rparr>)"
proof (intro conjI impI)
  assume h: "0 < FailedCount resp \<and> FailedFindings resp = f # others"
  then show "report_failed resp st
        = (None, st\<lparr>trace := trace st @ [Log ERROR (failed_message f)]\<rparr>)"
    by (simp add: report_failed_listed)
  from h show "report_failed resp st = report_failed (resp\<lparr>FailedFindings := [f]\<rparr>) st"
    by (simp add: report_failed_listed)
next
  assume h: "batch_import_findings hub sess region b (world st) = (Inr resp, w') \<and>
    0 < FailedCount resp \<and> FailedFindings resp = f # others"
  then show s: "submit_chunks hub sess region [b] st
        = (None,
           \<lparr>world = w',
            trace = trace st @
              [Call (Securityhub_batch_import_findings region b),
               Log ERROR (failed_message f)]\<rparr>)"
    by (simp add: perform_def report_failed_listed)
  show "errors (new_events st (snd (submit_chunks hub sess region [b] st))) = [failed_message f]"
    unfolding s by (simp add: new_events_def)
next
  assume h: "describe_hub hub sess region (world st) = (None, w1) \<and>
    list_enabled_products_for_import hub sess region w1 = (Inr products, w2) \<and>
    batch_import_findings hub sess region [finding_output] w2 = (Inr resp, w') \<and>
    0 < FailedCount resp \<and> FailedFindings resp = f # others"
  then show "send_to_security_hub hub region finding_output sess st
        = \<lparr>world = w',
           trace = trace st @
             [Log INFO ''Sending findings to Security Hub.'',
              Call (Securityhub_describe_hub region),
              Call (Securityhub_list_enabled_products_for_import region)] @
             (if contains ''prowler/prowler'' products then []
              else [Log ERROR (integration_message region)]) @
             [Call (Securityhub_batch_import_findings region [finding_output]),
              Log ERROR (failed_message f)]\<rparr>"
    by (simp add: send_to_security_hub_def send_to_security_hub_try_def perform_def logger_def
        Let_def report_failed_listed del: contains.simps)
qed

theorem first_failed_finding_logged_witness:
  "report_failed \<lparr>FailedCount = 2, SuccessCount = 0, FailedFindings = rejected\<rparr> (start ())
     = (None,
        \<lparr>world = (),
         trace =
           [Log ERROR
              ''Failed to send archived findings to AWS Security Hub -- InvalidInput -- Invalid finding'']\<rparr>) \<and>
   errors (new_events (start ())
      (snd (submit_chunks rejecting_hub (Session None None None) ''us-east-1'' [[finding1]]
              (start ()))))
     = [''Failed to send archived findings to AWS Security Hub -- InvalidInput -- Invalid finding''] \<and>
   send_to_security_hub rejecting_hub ''us-east-1'' finding1 (Session None None None) (start ())
     = \<lparr>world = (),
        trace =
          [Log INFO ''Sending findings to Security Hub.'',
           Call (Securityhub_describe_hub ''us-east-1''),
           Call (Securityhub_list_enabled_products_for_import ''us-east-1''),
           Call (Securityhub_batch_import_findings ''us-east-1'' [finding1]),
           Log ERROR
             ''Failed to send archived findings to AWS Security Hub -- InvalidInput -- Invalid finding'']\<rparr>"
proof -
  let ?S = "Session None None None"
  let ?resp = "\<lparr>FailedCount = 2, SuccessCount = 0, FailedFindings = rejected\<rparr>"
  let ?f = "\<lparr>failed_Id = ''f2'', ErrorCode = ''InvalidInput'',
             ErrorMessage = ''Invalid finding''\<rparr>"
  let ?o = "[\<lparr>failed_Id = ''f3'', ErrorCode = ''LimitExceeded'', ErrorMessage = ''Too many''\<rparr>]"
  let ?products = "''arn:aws:securityhub:::product-subscription/prowler/prowler''"
  note t = first_failed_finding_logged [where hub = rejecting_hub and sess = ?S
        and region = "''us-east-1''" and b = "[finding1]" and st = "start ()"
        and resp = ?resp and finding_output = finding1 and products = ?products
        and ?w1.0 = "()" and ?w2.0 = "()" and w' = "()" and f = ?f and others = ?o]
  have m: "failed_message ?f
     = ''Failed to send archived findings to AWS Security Hub -- InvalidInput -- Invalid finding''"
    by (simp add: failed_message_def)
  have c: "contains ''prowler/prowler'' ?products"
    by code_simp
  have h1: "0 < FailedCount ?resp \<and> FailedFindings ?resp = ?f # ?o"
    by (simp add: rejected_def)
  have a: "report_failed ?resp (start ())
     = (None,
        \<lparr>world = (),
         trace =
           [Log ERROR
              ''Failed to send archived findings to AWS Security Hub -- InvalidInput -- Invalid finding'']\<rparr>)"
    using t [THEN conjunct1, THEN mp, OF h1, THEN conjunct1] unfolding m
    by (simp add: start_def)
  have h2: "batch_import_findings rejecting_hub ?S ''us-east-1'' [finding1] (world (start ()))
              = (Inr ?resp, ()) \<and> 0 < FailedCount ?resp \<and> FailedFindings ?resp = ?f # ?o"
    by (simp add: rejecting_hub_def rejected_def)
  have b: "errors (new_events (start ())
      (snd (submit_chunks rejecting_hub ?S ''us-east-1'' [[finding1]] (start ()))))
     = [''Failed to send archived findings to AWS Security Hub -- InvalidInput -- Invalid finding'']"
    using t [THEN conjunct2, THEN conjunct1, THEN mp, OF h2, THEN conjunct2] unfolding m .
  have h3: "describe_hub rejecting_hub ?S ''us-east-1'' (world (start ())) = (None, ()) \<and>
    list_enabled_products_for_import rejecting_hub ?S ''us-east-1'' () = (Inr ?products, ()) \<and>
    batch_import_findings rejecting_hub ?S ''us-east-1'' [finding1] () = (Inr ?resp, ()) \<and>
    0 < FailedCount ?resp \<and> FailedFindings ?resp = ?f # ?o"
    by (simp add: rejecting_hub_def rejected_def)
  have d: "send_to_security_hub rejecting_hub ''us-east-1'' finding1 ?S (start ())
     = \<lparr>world = (),
        trace =
          [Log INFO ''Sending findings to Security Hub.'',
           Call (Securityhub_describe_hub ''us-east-1''),
           Call (Securityhub_list_enabled_products_for_import ''us-east-1''),
           Call (Securityhub_batch_import_findings ''us-east-1'' [finding1]),
           Log ERROR
             ''Failed to send archived findings to AWS Security Hub -- InvalidInput -- Invalid finding'']\<rparr>"
    using t [THEN conjunct2, THEN conjunct2, THEN mp, OF h3] c unfolding m
    by (simp add: start_def del: contains.simps)
  from a b d show ?thesis by blast
qed

section \<open>Reconciliation: groups, queries and what is archived\<close>






section \<open>Reconciliation on the finding store: a second run archives nothing\<close>

lemma store_hub_simps [simp]:
  "json_load (store_hub enabled asff) path w = (Inr asff, w)"
  "describe_hub (store_hub enabled asff) sess region w =
     (if region \<in> set enabled then None
      else Some (Exn ''InvalidAccessException'' ''Account is not subscribed to AWS Security Hub''),
      w)"
  "get_findings (store_hub enabled asff) sess region flt w
     = (Inr (list_chunked (filter (matches flt) w)), w)"
  "batch_import_findings (store_hub enabled asff) sess region fs w
     = (Inr \<lparr>FailedCount = 0, SuccessCount = int (length fs), FailedFindings = []\<rparr>,
        import_all fs w)"
  by (simp_all add: store_hub_def)

lemma import_all_Nil [simp]: "import_all [] w = w"
  by (simp add: import_all_def)

lemma import_all_Cons [simp]: "import_all (f # fs) w = import_all fs (upsert f w)"
  by (simp add: import_all_def)

lemma import_all_append [simp]: "import_all (fs @ gs) w = import_all gs (import_all fs w)"
  by (simp add: import_all_def)

lemma set_upsert:
  "set (upsert f w) \<subseteq> {s \<in> set w. finding_Id s \<noteq> finding_Id f} \<union> {f}"
proof (cases "finding_Id f \<in> finding_Id ` set w")
  case True
  then show ?thesis by (auto simp: upsert_def)
next
  case False
  then have "\<forall>x \<in> set w. finding_Id x \<noteq> finding_Id f" by (metis imageI)
  with False show ?thesis by (auto simp: upsert_def)
qed

lemma set_import_all:
  "set (import_all fs w) \<subseteq> {s \<in> set w. finding_Id s \<notin> finding_Id ` set fs} \<union> set fs"
proof (induction fs arbitrary: w)
  case Nil
  then show ?case by simp
next
  case (Cons f fs)
  have "set (import_all fs (upsert f w))
          \<subseteq> {s \<in> set (upsert f w). finding_Id s \<notin> finding_Id ` set fs} \<union> set fs"
    by (rule Cons.IH)
  also have "\<dots> \<subseteq> {s \<in> set w. finding_Id s \<notin> finding_Id ` set (f # fs)} \<union> set (f # fs)"
    using set_upsert [of f w] by auto
  finally show ?case by simp
qed

text \<open>The store answers every submission: all chunks go in, in order.\<close>

lemma submit_chunks_store:
  "fst (submit_chunks (store_hub enabled asff) sess region chunks st) = None \<and>
   world (snd (submit_chunks (store_hub enabled asff) sess region chunks st))
     = import_all (concat chunks) (world st)"
proof (induction chunks arbitrary: st)
  case Nil
  then show ?case by simp
next
  case (Cons findings rest)
  let ?st1 = "\<lparr>world = import_all findings (world st),
               trace = trace st @ [Call (Securityhub_batch_import_findings region findings)]\<rparr>"
  have "submit_chunks (store_hub enabled asff) sess region (findings # rest) st
          = submit_chunks (store_hub enabled asff) sess region rest ?st1"
    by (simp add: perform_def report_failed_def)
  with Cons.IH [of ?st1] show ?case by simp
qed

lemma findings_to_archive_store:
  "findings_to_archive_of cfg (map finding_Id current)
     (list_chunked (filter (matches (findings_filter_of info region)) w))
   = map (archive cfg) (stale info region current w)"
  by (simp add: findings_to_archive_of_def stale_def)

lemma archive_facts [simp]:
  "finding_Id (archive cfg f) = finding_Id f"
  "RecordState (archive cfg f) = ''ARCHIVED''"
  by (simp_all add: archive_def)

lemma matches_active:
  "matches (findings_filter_of info region) f \<Longrightarrow> RecordState f = ''ACTIVE''"
  by (simp add: matches_def findings_filter_of_def)

text \<open>One group on the store: what it does to the world and what it submits.\<close>

lemma archive_region_try_store:
  "world (snd (archive_region_try (store_hub enabled asff) cfg info region current st))
     = (if audit_session info \<noteq> None \<and> region \<in> set enabled
        then import_all (map (archive cfg) (stale info region current (world st))) (world st)
        else world st) \<and>
   batches (new_events st
      (snd (archive_region_try (store_hub enabled asff) cfg info region current st)))
     = (if audit_session info \<noteq> None \<and> region \<in> set enabled
        then list_chunked (map (archive cfg) (stale info region current (world st)))
        else [])"
proof (cases "audit_session info")
  case None
  then show ?thesis by (simp add: archive_region_try_no_session)
next
  case (Some sess)
  let ?H = "store_hub enabled asff"
  show ?thesis
  proof (cases "region \<in> set enabled")
    case False
    have "describe_hub ?H sess region (world st)
            = (Some (Exn ''InvalidAccessException''
                 ''Account is not subscribed to AWS Security Hub''), world st)"
      using False by simp
    from archive_region_try_disabled [OF Some this, of cfg current] False
    show ?thesis by (simp add: new_events_def)
  next
    case True
    let ?A = "map (archive cfg) (stale info region current (world st))"
    have d: "describe_hub ?H sess region (world st) = (None, world st)"
      using True by simp
    have g: "get_findings ?H sess region (findings_filter_of info region) (world st)
               = (Inr (list_chunked (filter (matches (findings_filter_of info region))
                    (world st))), world st)"
      by simp
    obtain err st' where a: "archive_region_try ?H cfg info region current st = (err, st')"
      by (cases "archive_region_try ?H cfg info region current st")
    let ?st1 = "\<lparr>world = world st,
            trace = trace st @
              [Call (Securityhub_describe_hub region),
               Call (Securityhub_get_findings region (findings_filter_of info region)),
               Log INFO (''Archiving '' @ str_nat (length ?A) @ '' findings.'')]\<rparr>"
    have s: "submit_chunks ?H sess region (list_chunked ?A) ?st1 = (err, st')"
      using archive_region_try_query [OF Some d g, of cfg current] a
      by (simp add: findings_to_archive_store)
    from submit_chunks_store [of enabled asff sess region "list_chunked ?A" ?st1] s
    have e: "err = None" and w: "world st' = import_all ?A (world st)"
      by simp_all
    from archive_region_try_answered [OF Some d g a] e
    have "batches (new_events st st') = list_chunked ?A"
      by (simp add: findings_to_archive_store)
    with w a Some True show ?thesis by simp
  qed
qed

text \<open>Submitting archived findings leaves no new active finding in the store.\<close>

lemma active_after_import:
  assumes "f \<in> set (import_all (map (archive cfg) fs) w)" and "RecordState f = ''ACTIVE''"
  shows "f \<in> set w \<and> finding_Id f \<notin> finding_Id ` set fs"
proof -
  from set_import_all [of "map (archive cfg) fs" w] assms(1)
  have "(f \<in> set w \<and> finding_Id f \<notin> finding_Id ` set (map (archive cfg) fs))
          \<or> f \<in> set (map (archive cfg) fs)"
    by auto
  moreover have "f \<notin> set (map (archive cfg) fs)"
    using assms(2) by auto
  moreover have "finding_Id ` set (map (archive cfg) fs) = finding_Id ` set fs"
    by (simp add: image_image)
  ultimately show ?thesis by simp
qed

lemma stale_after_own:
  "stale info region current
     (import_all (map (archive cfg) (stale info region current w)) w) = []"
proof -
  let ?w' = "import_all (map (archive cfg) (stale info region current w)) w"
  have "\<not> (f \<in> set ?w' \<and> matches (findings_filter_of info region) f \<and>
            finding_Id f \<notin> finding_Id ` set current)" for f
  proof
    assume h: "f \<in> set ?w' \<and> matches (findings_filter_of info region) f \<and>
            finding_Id f \<notin> finding_Id ` set current"
    then have "RecordState f = ''ACTIVE''" using matches_active by blast
    from active_after_import [OF h [THEN conjunct1] this]
    have 1: "f \<in> set w" and 2: "finding_Id f \<notin> finding_Id ` set (stale info region current w)"
      by simp_all
    from 1 h have "f \<in> set (stale info region current w)"
      by (simp add: stale_def)
    with 2 show False by blast
  qed
  then show ?thesis
    by (auto simp: stale_def filter_empty_conv)
qed

lemma stale_after_other:
  assumes "stale info region current w = []"
  shows "stale info region current (import_all (map (archive cfg) fs) w) = []"
proof -
  let ?w' = "import_all (map (archive cfg) fs) w"
  have "\<not> (f \<in> set ?w' \<and> matches (findings_filter_of info region) f \<and>
            finding_Id f \<notin> finding_Id ` set current)" for f
  proof
    assume h: "f \<in> set ?w' \<and> matches (findings_filter_of info region) f \<and>
            finding_Id f \<notin> finding_Id ` set current"
    then have "RecordState f = ''ACTIVE''" using matches_active by blast
    from active_after_import [OF h [THEN conjunct1] this]
    have "f \<in> set w" by simp
    with h have "f \<in> set (stale info region current w)"
      by (simp add: stale_def)
    with assms show False by simp
  qed
  then show ?thesis
    by (auto simp: stale_def filter_empty_conv)
qed

lemma reached_Cons:
  "reached ((product_arn, current) # groups)
     = (if 3 < length (str_split CHR '':'' product_arn)
        then (product_arn, current) # reached groups else [])"
  by (simp add: reached_def)

lemma quiet_Nil [simp]: "quiet enabled info [] w"
  by (simp add: quiet_def)

lemma quiet_append:
  "quiet enabled info (gs @ hs) w \<longleftrightarrow> quiet enabled info gs w \<and> quiet enabled info hs w"
  by (auto simp: quiet_def)

lemma quiet_Cons:
  "quiet enabled info ((product_arn, current) # gs) w \<longleftrightarrow>
     (audit_session info \<noteq> None \<and> str_split CHR '':'' product_arn ! 3 \<in> set enabled \<longrightarrow>
        stale info (str_split CHR '':'' product_arn ! 3) current w = []) \<and>
     quiet enabled info gs w"
  by (simp add: quiet_def)

lemma quiet_after_import:
  "quiet enabled info gs w \<Longrightarrow> quiet enabled info gs (import_all (map (archive cfg) fs) w)"
  by (auto simp: quiet_def stale_after_other)

text \<open>After a run, nothing is left to archive for the groups it reached.\<close>

lemma archive_groups_settles:
  "quiet enabled info gs0 (world st) \<Longrightarrow>
     quiet enabled info (gs0 @ reached groups)
       (world (snd (archive_groups (store_hub enabled asff) cfg info groups st)))"
proof (induction groups arbitrary: gs0 st)
  case Nil
  then show ?case by (simp add: reached_def)
next
  case (Cons group groups)
  let ?H = "store_hub enabled asff"
  obtain product_arn current where group: "group = (product_arn, current)"
    by (cases group)
  show ?case
  proof (cases "3 < length (str_split CHR '':'' product_arn)")
    case False
    then show ?thesis
      using Cons.prems group by (simp add: reached_Cons py_index_3)
  next
    case True
    define region where "region = str_split CHR '':'' product_arn ! 3"
    have p: "py_index (str_split CHR '':'' product_arn) 3 = Inr region"
      using True by (simp add: py_index_3 region_def)
    obtain err st1 where a: "archive_region_try ?H cfg info region current st = (err, st1)"
      by (cases "archive_region_try ?H cfg info region current st")
    let ?st2 = "after_region err region st1"
    have step: "archive_groups ?H cfg info (group # groups) st
                  = archive_groups ?H cfg info groups ?st2"
      using archive_groups_step [OF p a] group by simp
    have w2: "world ?st2 = world st1"
      using after_region_trace [of err region st1] by simp
    have w1: "world st1
      = (if audit_session info \<noteq> None \<and> region \<in> set enabled
         then import_all (map (archive cfg) (stale info region current (world st))) (world st)
         else world st)"
      using archive_region_try_store [of enabled asff cfg info region current st] a by simp
    have q0: "quiet enabled info gs0 (world ?st2)"
      using Cons.prems w1 w2 by (simp add: quiet_after_import)
    have q1: "quiet enabled info [(product_arn, current)] (world ?st2)"
      using w1 w2 by (simp add: quiet_Cons region_def [symmetric] stale_after_own)
    from q0 q1 have "quiet enabled info (gs0 @ [(product_arn, current)]) (world ?st2)"
      by (simp add: quiet_append)
    from Cons.IH [OF this]
    have "quiet enabled info ((gs0 @ [(product_arn, current)]) @ reached groups)
            (world (snd (archive_groups ?H cfg info groups ?st2)))" .
    then show ?thesis
      using step True group by (simp add: reached_Cons)
  qed
qed

text \<open>A run that finds nothing left to archive submits nothing and leaves the store as
  it is.\<close>

lemma archive_groups_quiet:
  "quiet enabled info (reached groups) (world st) \<Longrightarrow>
     world (snd (archive_groups (store_hub enabled asff) cfg info groups st)) = world st \<and>
     batches (new_events st (snd (archive_groups (store_hub enabled asff) cfg info groups st)))
       = []"
proof (induction groups arbitrary: st)
  case Nil
  then show ?case by simp
next
  case (Cons group groups)
  let ?H = "store_hub enabled asff"
  obtain product_arn current where group: "group = (product_arn, current)"
    by (cases group)
  show ?case
  proof (cases "3 < length (str_split CHR '':'' product_arn)")
    case False
    then show ?thesis
      using group by (simp add: py_index_3)
  next
    case True
    define region where "region = str_split CHR '':'' product_arn ! 3"
    have p: "py_index (str_split CHR '':'' product_arn) 3 = Inr region"
      using True by (simp add: py_index_3 region_def)
    obtain err st1 where a: "archive_region_try ?H cfg info region current st = (err, st1)"
      by (cases "archive_region_try ?H cfg info region current st")
    let ?st2 = "after_region err region st1"
    obtain r st' where rec: "archive_groups ?H cfg info groups ?st2 = (r, st')"
      by (cases "archive_groups ?H cfg info groups ?st2")
    have step: "archive_groups ?H cfg info (group # groups) st = (r, st')"
      using archive_groups_step [OF p a] group rec by simp
    from Cons.prems True group
    have q: "audit_session info \<noteq> None \<and> region \<in> set enabled \<longrightarrow>
               stale info region current (world st) = []"
      and qs: "quiet enabled info (reached groups) (world st)"
      by (simp_all add: reached_Cons quiet_Cons region_def)
    note s = archive_region_try_store [of enabled asff cfg info region current st]
    have w1: "world st1 = world st"
      using s a q by auto
    have b1: "batches (new_events st st1) = []"
      using s a q by auto
    have w2: "world ?st2 = world st"
      using after_region_trace [of err region st1] w1 by simp
    note g = group_events [OF a]
    have b2: "batches (new_events st ?st2) = []"
      using g b1 by simp
    from Cons.IH [of ?st2] qs w2 rec
    have w: "world st' = world st" and b: "batches (new_events ?st2 st') = []"
      by simp_all
    note gt = archive_groups_trace [OF rec]
    from new_events_step [OF g [THEN conjunct1] gt [THEN conjunct1]]
    have "new_events st st' = new_events st ?st2 @ new_events ?st2 st'"
      by simp
    with b2 b have "batches (new_events st st') = []" by simp
    with w step show ?thesis by simp
  qed
qed

text \<open>
  C3. On the finding store, run \<^verbatim>\<open>resolve_security_hub_previous_findings\<close> and then
  run it again from the state the first run left, with the same file, configuration and
  audit info: the second run submits nothing and leaves the store as the first run left
  it. The query asks for active findings only, so what the first run archived is not
  returned again, for every file, store content and set of enabled regions.
\<close>

theorem reconcile_idempotent:
  "batches (new_events
      (snd (resolve_security_hub_previous_findings (store_hub enabled asff) cfg output_directory
              info st))
      (snd (resolve_security_hub_previous_findings (store_hub enabled asff) cfg output_directory
              info
              (snd (resolve_security_hub_previous_findings (store_hub enabled asff) cfg
                      output_directory info st))))) = [] \<and>
   world (snd (resolve_security_hub_previous_findings (store_hub enabled asff) cfg
                 output_directory info
                 (snd (resolve_security_hub_previous_findings (store_hub enabled asff) cfg
                         output_directory info st))))
     = world (snd (resolve_security_hub_previous_findings (store_hub enabled asff) cfg
                     output_directory info st))"
proof -
  let ?H = "store_hub enabled asff"
  let ?groups = "groupby ProductArn (sort_key ProductArn asff)"
  let ?head = "[Log INFO ''Checking previous findings in Security Hub to archive them.'',
                Call (File_open (findings_file cfg output_directory info))]"
  have run: "resolve_security_hub_previous_findings ?H cfg output_directory info s
               = archive_groups ?H cfg info ?groups \<lparr>world = world s, trace = trace s @ ?head\<rparr>"
    for s :: "finding list state"
    by (simp add: resolve_security_hub_previous_findings_def perform_def logger_def)
  define first where
    "first = snd (resolve_security_hub_previous_findings ?H cfg output_directory info st)"
  define second where
    "second = snd (resolve_security_hub_previous_findings ?H cfg output_directory info first)"
  let ?st1 = "\<lparr>world = world st, trace = trace st @ ?head\<rparr>"
  let ?first1 = "\<lparr>world = world first, trace = trace first @ ?head\<rparr>"
  have f: "first = snd (archive_groups ?H cfg info ?groups ?st1)"
    unfolding first_def run ..
  have s: "second = snd (archive_groups ?H cfg info ?groups ?first1)"
    unfolding second_def run ..
  have "quiet enabled info ([] @ reached ?groups) (world first)"
    unfolding f by (rule archive_groups_settles) simp
  then have q: "quiet enabled info (reached ?groups) (world ?first1)"
    by simp
  from archive_groups_quiet [OF q, of asff cfg]
  have w: "world second = world first" and b: "batches (new_events ?first1 second) = []"
    unfolding s by simp_all
  obtain r where rec: "archive_groups ?H cfg info ?groups ?first1 = (r, second)"
    unfolding s by (cases "archive_groups ?H cfg info ?groups ?first1") simp
  have t1: "trace ?first1 = trace first @ ?head" by simp
  from new_events_step [OF t1 archive_groups_trace [OF rec, THEN conjunct1]]
  have "new_events first second = ?head @ new_events ?first1 second" by simp
  with b have "batches (new_events first second) = []" by simp
  with w show ?thesis unfolding first_def second_def by simp
qed

theorem reconcile_idempotent_witness:
  "batches (new_events (start [finding1, finding2])
      (snd (resolve_security_hub_previous_findings (store_hub [''us-east-1''] [finding1])
              example_config ''output'' example_audit_info (start [finding1, finding2]))))
     = [[archived finding2]] \<and>
   batches (new_events
      (snd (resolve_security_hub_previous_findings (store_hub [''us-east-1''] [finding1])
              example_config ''output'' example_audit_info (start [finding1, finding2])))
      (snd (resolve_security_hub_previous_findings (store_hub [''us-east-1''] [finding1])
              example_config ''output'' example_audit_info
              (snd (resolve_security_hub_previous_findings (store_hub [''us-east-1''] [finding1])
                      example_config ''output'' example_audit_info
                      (start [finding1, finding2])))))) = [] \<and>
   world (snd (resolve_security_hub_previous_findings (store_hub [''us-east-1''] [finding1])
                 example_config ''output'' example_audit_info
                 (snd (resolve_security_hub_previous_findings
                         (store_hub [''us-east-1''] [finding1])
                         example_config ''output'' example_audit_info
                         (start [finding1, finding2])))))
     = [finding1, archived finding2]"
proof -
  note t = reconcile_idempotent [where enabled = "[''us-east-1'']" and asff = "[finding1]"
      and cfg = example_config and output_directory = "''output''"
      and info = example_audit_info and st = "start [finding1, finding2]"]
  have a: "batches (new_events (start [finding1, finding2])
      (snd (resolve_security_hub_previous_findings (store_hub [''us-east-1''] [finding1])
              example_config ''output'' example_audit_info (start [finding1, finding2]))))
     = [[archived finding2]]"
    by code_simp
  have w: "world (snd (resolve_security_hub_previous_findings
                         (store_hub [''us-east-1''] [finding1])
                         example_config ''output'' example_audit_info
                         (start [finding1, finding2])))
     = [finding1, archived finding2]"
    by code_simp
  from t [THEN conjunct2] w
  have c: "world (snd (resolve_security_hub_previous_findings
                 (store_hub [''us-east-1''] [finding1])
                 example_config ''output'' example_audit_info
                 (snd (resolve_security_hub_previous_findings
                         (store_hub [''us-east-1''] [finding1])
                         example_config ''output'' example_audit_info
                         (start [finding1, finding2])))))
     = [finding1, archived finding2]"
    by (rule trans)
  from a t [THEN conjunct1] c show ?thesis by blast
qed

end
